theory Spec2Isabelle
  imports Complex_Main "HOL-Library.Char_ord" "HOL-Library.List_Lexorder" "HOL-Library.Sublist"
begin

section \<open>Backup Automatizado: a shallow embedding of \<open>backup_automatizado.py\<close>\<close>

text \<open>
  The program is one class, \<open>BackupManager\<close>, whose method \<open>executar\<close> runs four
  steps in order (mount check, free-space check, rsync, rotation of old backups), plus the
  free function \<open>enviar_notificacao\<close> and a signal handler.  Everything the program does is
  an effect on the outside world, so the embedding is a state-and-exception monad over
  \<^item> a \<open>world\<close> record that fixes what each external call answers (or which exception it
    raises), and
  \<^item> a \<open>state\<close> record holding the two mutable attributes of the manager and the trace of
    every effect performed so far.

  Strings are Isabelle strings (8-bit characters).  Python floats are modelled by exact
  rationals: the only float operations of the program are \<open>bytes / 1024 ** 3\<close>, which is
  exact below \<open>2 ^ 53\<close> bytes, a multiplication by two and comparisons.  Texts of log
  records and notifications contain non-ASCII characters and formatted floats; they are
  represented by one constructor per call site that carries the values interpolated into the
  text.
\<close>

subsection \<open>Python strings\<close>

definition digit_char :: "nat \<Rightarrow> char" where
  "digit_char n = ''0123456789'' ! n"

text \<open>\<open>str(n)\<close> for a non-negative integer: its decimal digits.\<close>

function str_nat :: "nat \<Rightarrow> string" where
  "str_nat n = (if n < 10 then [digit_char n] else str_nat (n div 10) @ [digit_char (n mod 10)])"
  by pat_completeness auto
termination
  by (relation "measure id") auto

declare str_nat.simps [simp del]

definition str_int :: "int \<Rightarrow> string" where
  "str_int i = (if i < 0 then CHR ''-'' # str_nat (nat (- i)) else str_nat (nat i))"

text \<open>\<open>s.zfill(w)\<close>-style padding as \<open>strftime\<close> applies it to \<open>%Y\<close>, \<open>%m\<close>, \<open>%d\<close>.\<close>

definition zero_pad :: "nat \<Rightarrow> string \<Rightarrow> string" where
  "zero_pad w s = replicate (w - length s) (CHR ''0'') @ s"

definition startswith :: "string \<Rightarrow> string \<Rightarrow> bool" where
  "startswith s p = prefix p s"

text \<open>
  \<open>s.replace(old, new)\<close>: every non-overlapping occurrence of \<open>old\<close>, scanning from the
  left, is replaced.  With an empty \<open>old\<close> Python inserts \<open>new\<close> before every character
  and at the end.
\<close>

function replace_from :: "string \<Rightarrow> string \<Rightarrow> string \<Rightarrow> string" where
  "replace_from old new [] = []"
| "replace_from old new (c # cs) =
     (if old \<noteq> [] \<and> prefix old (c # cs)
      then new @ replace_from old new (drop (length old) (c # cs))
      else c # replace_from old new cs)"
  by pat_completeness auto
termination
  by (relation "measure (\<lambda>(old, new, s). length s)") auto

definition py_replace :: "string \<Rightarrow> string \<Rightarrow> string \<Rightarrow> string" where
  "py_replace s old new =
     (if old = [] then new @ concat (map (\<lambda>c. c # new) s) else replace_from old new s)"

text \<open>\<open>str.isspace\<close> on the characters below 256, \<open>s.strip()\<close> and \<open>s.split("\n")\<close>.\<close>

definition is_space :: "char \<Rightarrow> bool" where
  "is_space c = (of_char c \<in> {9, 10, 11, 12, 13, 28, 29, 30, 31, 32, 133, 160 :: nat})"

definition py_strip :: "string \<Rightarrow> string" where
  "py_strip s = rev (dropWhile is_space (rev (dropWhile is_space s)))"

fun split_nl :: "string \<Rightarrow> string list" where
  "split_nl [] = [[]]"
| "split_nl (c # cs) =
     (if c = CHR 0x0A then [] # split_nl cs
      else (case split_nl cs of l # ls \<Rightarrow> (c # l) # ls | [] \<Rightarrow> [[c]]))"

text \<open>The slice \<open>xs[-20:]\<close>.\<close>

definition last_n :: "nat \<Rightarrow> 'a list \<Rightarrow> 'a list" where
  "last_n n xs = drop (length xs - n) xs"

subsection \<open>Durations\<close>

text \<open>
  A \<open>timedelta\<close> is its number of microseconds.  \<open>int(duracao.total_seconds())\<close> truncates
  towards zero; \<open>divmod\<close> is floor division, as \<open>div\<close> and \<open>mod\<close> on \<open>int\<close> are.
\<close>

type_synonym timedelta = int

definition total_seg :: "timedelta \<Rightarrow> int" where
  "total_seg duracao =
     (if 0 \<le> duracao then duracao div 1000000 else - ((- duracao) div 1000000))"

definition formatar_duracao :: "timedelta \<Rightarrow> string" where
  "formatar_duracao duracao =
     (let horas = total_seg duracao div 3600;
          resto = total_seg duracao mod 3600;
          minutos = resto div 60;
          segundos = resto mod 60
      in if horas > 0
         then str_int horas @ ''h '' @ str_int minutos @ ''min '' @ str_int segundos @ ''s''
         else if minutos > 0
         then str_int minutos @ ''min '' @ str_int segundos @ ''s''
         else str_int segundos @ ''s'')"

subsection \<open>Dates\<close>

text \<open>
  A \<open>datetime\<close>: the calendar date and the microseconds elapsed since midnight.  The
  functions below follow CPython's \<open>datetime\<close> module.
\<close>

record datetime =
  year :: nat
  month :: nat
  day :: nat
  usec :: nat

definition is_leap :: "nat \<Rightarrow> bool" where
  "is_leap y = (y mod 4 = 0 \<and> (y mod 100 \<noteq> 0 \<or> y mod 400 = 0))"

definition days_in_month :: "nat \<Rightarrow> nat \<Rightarrow> nat" where
  "days_in_month y m =
     (if m = 2 \<and> is_leap y then 29
      else [31, 28, 31, 30, 31, 30, 31, 31, 30, 31, 30, 31] ! (m - 1))"

definition days_before_year :: "nat \<Rightarrow> int" where
  "days_before_year y =
     (let y1 = int y - 1 in y1 * 365 + y1 div 4 - y1 div 100 + y1 div 400)"

definition days_before_month :: "nat \<Rightarrow> nat \<Rightarrow> int" where
  "days_before_month y m =
     int ([0, 31, 59, 90, 120, 151, 181, 212, 243, 273, 304, 334] ! (m - 1))
       + (if m > 2 \<and> is_leap y then 1 else 0)"

definition valid_date :: "nat \<Rightarrow> nat \<Rightarrow> nat \<Rightarrow> bool" where
  "valid_date y m d =
     (1 \<le> y \<and> y \<le> 9999 \<and> 1 \<le> m \<and> m \<le> 12 \<and> 1 \<le> d \<and> d \<le> days_in_month y m)"

definition toordinal :: "datetime \<Rightarrow> int" where
  "toordinal dt = days_before_year (year dt) + days_before_month (year dt) (month dt) + int (day dt)"

definition MAXORDINAL :: int where
  "MAXORDINAL = 3652059"

text \<open>\<open>dt.strftime("%Y-%m-%d")\<close> (for years of four digits).\<close>

definition strftime_ymd :: "datetime \<Rightarrow> string" where
  "strftime_ymd dt =
     zero_pad 4 (str_nat (year dt)) @ ''-'' @ zero_pad 2 (str_nat (month dt)) @ ''-''
       @ zero_pad 2 (str_nat (day dt))"

text \<open>
  An instant on the time line: proleptic Gregorian ordinal of the day and microseconds
  since midnight.  Python compares two naive datetimes field by field, which on valid
  datetimes is the lexicographic order of these pairs.
\<close>

type_synonym instant = "int \<times> nat"

definition instant_of :: "datetime \<Rightarrow> instant" where
  "instant_of dt = (toordinal dt, usec dt)"

definition before :: "instant \<Rightarrow> instant \<Rightarrow> bool" where
  "before a b = (fst a < fst b \<or> (fst a = fst b \<and> snd a < snd b))"

text \<open>
  \<open>datetime.strptime(s, "%Y-%m-%d")\<close>.  CPython turns the format into the regular expression
  \<open>(\d\d\d\d)-(1[0-2]|0[1-9]|[1-9])-(3[0-1]|[1-2]\d|0[1-9]|[1-9]| [1-9])\<close>, matches it at
  the start of the string (alternatives in order, backtracking into the month when what
  follows fails), raises \<open>ValueError\<close> when there is no match or when characters remain
  after the match, and again when year, month and day are not a date.
\<close>

definition is_digit :: "char \<Rightarrow> bool" where
  "is_digit c = (c \<in> set ''0123456789'')"

definition digit_val :: "char \<Rightarrow> nat" where
  "digit_val c = of_char c - 48"

definition in_range :: "char \<Rightarrow> string \<Rightarrow> bool" where
  "in_range c cs = (c \<in> set cs)"

definition match_year :: "string \<Rightarrow> (nat \<times> string) option" where
  "match_year s =
     (case s of
        a # b # c # d # r \<Rightarrow>
          if is_digit a \<and> is_digit b \<and> is_digit c \<and> is_digit d
          then Some (1000 * digit_val a + 100 * digit_val b + 10 * digit_val c + digit_val d, r)
          else None
      | _ \<Rightarrow> None)"

text \<open>The ways the month group can match, in the order the regular expression tries them.\<close>

definition month_alts :: "string \<Rightarrow> (nat \<times> string) list" where
  "month_alts s =
     (case s of
        a # b # r \<Rightarrow>
          (if a = CHR ''1'' \<and> in_range b ''012'' then [(10 + digit_val b, r)] else [])
          @ (if a = CHR ''0'' \<and> in_range b ''123456789'' then [(digit_val b, r)] else [])
      | _ \<Rightarrow> [])
     @ (case s of
          a # r \<Rightarrow> if in_range a ''123456789'' then [(digit_val a, r)] else []
        | _ \<Rightarrow> [])"

definition day_alts :: "string \<Rightarrow> (nat \<times> string) list" where
  "day_alts s =
     (case s of
        a # b # r \<Rightarrow>
          (if a = CHR ''3'' \<and> in_range b ''01'' then [(30 + digit_val b, r)] else [])
          @ (if in_range a ''12'' \<and> is_digit b then [(10 * digit_val a + digit_val b, r)] else [])
          @ (if a = CHR ''0'' \<and> in_range b ''123456789'' then [(digit_val b, r)] else [])
      | _ \<Rightarrow> [])
     @ (case s of
          a # r \<Rightarrow> if in_range a ''123456789'' then [(digit_val a, r)] else []
        | _ \<Rightarrow> [])
     @ (case s of
          a # b # r \<Rightarrow>
            if a = CHR '' '' \<and> in_range b ''123456789'' then [(digit_val b, r)] else []
        | _ \<Rightarrow> [])"

text \<open>After a month alternative: the hyphen and the first day alternative.\<close>

definition after_month :: "nat \<times> string \<Rightarrow> (nat \<times> nat \<times> string) option" where
  "after_month mr =
     (case snd mr of
        c # r \<Rightarrow>
          if c = CHR ''-''
          then (case day_alts r of (d, r') # _ \<Rightarrow> Some (fst mr, d, r') | [] \<Rightarrow> None)
          else None
      | [] \<Rightarrow> None)"

fun first_match :: "('a \<Rightarrow> 'b option) \<Rightarrow> 'a list \<Rightarrow> 'b option" where
  "first_match f [] = None"
| "first_match f (x # xs) = (case f x of Some y \<Rightarrow> Some y | None \<Rightarrow> first_match f xs)"

definition regex_match :: "string \<Rightarrow> (nat \<times> nat \<times> nat \<times> string) option" where
  "regex_match s =
     (case match_year s of
        None \<Rightarrow> None
      | Some (y, r) \<Rightarrow>
          (case r of
             c # r' \<Rightarrow>
               if c = CHR ''-''
               then (case first_match after_month (month_alts r') of
                       Some (m, d, rest) \<Rightarrow> Some (y, m, d, rest)
                     | None \<Rightarrow> None)
               else None
           | [] \<Rightarrow> None))"

text \<open>\<open>None\<close> stands for the \<open>ValueError\<close> that \<open>strptime\<close> raises.\<close>

definition strptime_ymd :: "string \<Rightarrow> datetime option" where
  "strptime_ymd s =
     (case regex_match s of
        None \<Rightarrow> None
      | Some (y, m, d, rest) \<Rightarrow>
          if rest \<noteq> [] then None
          else if valid_date y m d then Some \<lparr>year = y, month = m, day = d, usec = 0\<rparr>
          else None)"

text \<open>
  \<open>dt - timedelta(days=n)\<close>: \<open>timedelta\<close> refuses more than 999999999 days, and the
  subtraction refuses a result outside the years 1 to 9999; both raise \<open>OverflowError\<close>,
  here \<open>None\<close>.
\<close>

definition minus_days :: "datetime \<Rightarrow> int \<Rightarrow> instant option" where
  "minus_days dt n =
     (if \<bar>n\<bar> > 999999999 then None
      else let ord = toordinal dt - n
           in if 0 < ord \<and> ord \<le> MAXORDINAL then Some (ord, usec dt) else None)"

subsection \<open>Exceptions, configuration and the outside world\<close>

datatype oskind = FileNotFound | PermissionDenied | OtherOS

text \<open>
  The exceptions that can occur.  \<open>OSError k\<close> is \<open>FileNotFoundError\<close>,
  \<open>PermissionError\<close> or another \<open>OSError\<close>; \<open>SystemExit\<close> is the one exception here
  that is not an \<open>Exception\<close>.
\<close>

datatype exn =
    OSError oskind
  | TimeoutExpired
  | ValueError
  | OverflowError
  | ZeroDivisionError
  | SystemExit int

definition is_OSError :: "exn \<Rightarrow> bool" where
  "is_OSError e = (case e of OSError _ \<Rightarrow> True | _ \<Rightarrow> False)"

definition is_Exception :: "exn \<Rightarrow> bool" where
  "is_Exception e = (case e of SystemExit _ \<Rightarrow> False | _ \<Rightarrow> True)"

record BackupConfig =
  origem :: string
  destino :: string
  log_dir :: string
  retencao_dias :: int
  espaco_minimo_gb :: rat
  exclusoes :: "string list"

text \<open>What \<open>subprocess.run\<close> can raise instead of returning a \<open>CompletedProcess\<close>.\<close>

datatype run_failure = RunOSError oskind | RunTimeoutExpired | RunValueError

definition exn_of :: "run_failure \<Rightarrow> exn" where
  "exn_of f = (case f of RunOSError k \<Rightarrow> OSError k | RunTimeoutExpired \<Rightarrow> TimeoutExpired
                 | RunValueError \<Rightarrow> ValueError)"

record completed =
  returncode :: int
  stdout :: string
  stderr :: string

record usage =
  total_bytes :: nat
  used_bytes :: nat
  free_bytes :: nat

text \<open>
  A child of the destination directory: its name, what \<open>is_dir()\<close> answers, and what
  \<open>shutil.rmtree\<close> does on it (\<open>None\<close>: it succeeds).
\<close>

record entry =
  name :: string
  is_dir :: bool
  rmtree :: "oskind option"

datatype urgency = Low | Normal | Critical

datatype signal = SIGINT | SIGTERM

text \<open>The notifications of the program, one constructor per call of \<open>enviar_notificacao\<close>.\<close>

datatype notif =
    BackupInterrompido signal
  | DestinoNaoExiste
  | HdNaoMontado
  | ErroEspaco exn
  | HdCheio
  | EspacoBaixo
  | ErroRsync exn
  | RsyncFalhou int
  | BackupConcluido

text \<open>
  The answers of the outside world during one run, one field per external call of the
  program (the notification call answers by notification).
\<close>

record world =
  dest_exists :: bool
  mountpoint_run :: "run_failure + completed"
  disk_usage :: "oskind + usage"
  now_backup :: datetime
  mkdir_result :: "oskind option"
  rsync_run :: "string list \<Rightarrow> run_failure + completed"
  rsync_duration :: timedelta
  backup_dir_exists :: bool
  rglob_sizes :: "oskind + nat list"
  now_rotation :: datetime
  iterdir :: "oskind + entry list"
  notify_send :: "notif \<Rightarrow> urgency \<Rightarrow> run_failure + completed"

subsection \<open>State, events and the monad\<close>

datatype level = DEBUG | INFO | WARNING | ERROR

text \<open>The log records of the program, one constructor per call of the logger.\<close>

datatype log_msg =
    SinalRecebido signal
  | DestinoInexistente
  | NaoMontado
  | Montado
  | ErroVerificarEspaco exn
  | EspacoEmDisco usage
  | HdCheioMsg
  | EspacoBaixoMsg
  | DryRunAtivado
  | IniciandoRsync
  | Comando "string list"
  | ErroExecutarRsync exn
  | RsyncLinha string
  | BackupSucesso string
  | RsyncFalhouMsg int string
  | Resumo nat nat string
  | ResumoErro exn
  | DryRunPulandoRotacao
  | VerificandoAntigos int instant
  | RemovendoAntigo string
  | ErroRemover string exn
  | Removidos nat
  | NenhumRemovido
  | Separador
  | BackupIniciado
  | ModoDryRun
  | Etapa nat
  | BackupFinalizado bool

text \<open>
  The methods whose calls are recorded in the trace (a call is recorded when the
  method is entered).
\<close>

datatype routine =
    VerificarHdMontado
  | VerificarEspacoDisco
  | ExecutarRsync
  | RegistrarResumo
  | RotacionarBackups

text \<open>
  Everything observable the program does, in order.  \<open>NotifySend\<close> carries the timeout in
  seconds passed to \<open>subprocess.run\<close>; \<open>Rmtree\<close> carries whether the removal succeeded.
\<close>

datatype event =
    Enter routine
  | Log level log_msg
  | NotifySend urgency notif nat
  | RunMountpoint "string list"
  | DiskUsage
  | Mkdir string
  | RunRsync "string list"
  | Rglob
  | IterDir
  | Rmtree string bool

record state =
  interrompido :: bool
  backup_dir :: "string option"
  trace :: "event list"

definition initial :: state where
  "initial = \<lparr>interrompido = False, backup_dir = None, trace = []\<rparr>"

text \<open>
  A program takes the signal that will be delivered, if any (the number of events after
  which it arrives, and which signal), and the state; it returns a value or raises, and
  the new state.
\<close>

type_synonym 'a prog = "(nat \<times> signal) option \<Rightarrow> state \<Rightarrow> (exn + 'a) \<times> state"

definition pure :: "'a \<Rightarrow> 'a prog" where
  "pure x = (\<lambda>sg s. (Inr x, s))"

definition raise :: "exn \<Rightarrow> 'a prog" where
  "raise e = (\<lambda>sg s. (Inl e, s))"

definition bnd :: "'a prog \<Rightarrow> ('a \<Rightarrow> 'b prog) \<Rightarrow> 'b prog" where
  "bnd m f = (\<lambda>sg s. case m sg s of (Inl e, s') \<Rightarrow> (Inl e, s') | (Inr x, s') \<Rightarrow> f x sg s')"

definition seq :: "unit prog \<Rightarrow> 'a prog \<Rightarrow> 'a prog" where
  "seq m n = bnd m (\<lambda>_. n)"

text \<open>
  \<open>try: m except ...\<close>: the handler function answers \<open>Some\<close> of the handler's body for an
  exception that one of the \<open>except\<close> clauses matches and \<open>None\<close> for one that propagates.
\<close>

definition try_except :: "'a prog \<Rightarrow> (exn \<Rightarrow> 'a prog option) \<Rightarrow> 'a prog" where
  "try_except m h =
     (\<lambda>sg s. case m sg s of
        (Inl e, s') \<Rightarrow> (case h e of Some k \<Rightarrow> k sg s' | None \<Rightarrow> (Inl e, s'))
      | (Inr x, s') \<Rightarrow> (Inr x, s'))"

definition modify :: "(state \<Rightarrow> state) \<Rightarrow> unit prog" where
  "modify f = (\<lambda>sg s. (Inr (), f s))"

definition get_backup_dir :: "string option prog" where
  "get_backup_dir = (\<lambda>sg s. (Inr (backup_dir s), s))"

text \<open>Performing an effect with no signal in the way: the event joins the trace.\<close>

definition emit_raw :: "event \<Rightarrow> unit prog" where
  "emit_raw e = modify (\<lambda>s. s\<lparr>trace := trace s @ [e]\<rparr>)"

text \<open>An external call: the effect, then the answer of the world or its exception.\<close>

definition subprocess_run ::
  "(event \<Rightarrow> unit prog) \<Rightarrow> event \<Rightarrow> run_failure + completed \<Rightarrow> completed prog" where
  "subprocess_run em ev answer =
     seq (em ev) (case answer of Inl f \<Rightarrow> raise (exn_of f) | Inr c \<Rightarrow> pure c)"

definition os_call :: "(event \<Rightarrow> unit prog) \<Rightarrow> event \<Rightarrow> oskind + 'a \<Rightarrow> 'a prog" where
  "os_call em ev answer =
     seq (em ev) (case answer of Inl k \<Rightarrow> raise (OSError k) | Inr x \<Rightarrow> pure x)"

subsection \<open>Notifications and the signal handler\<close>

text \<open>
  \<open>enviar_notificacao\<close>: \<open>notify-send\<close> with \<open>check=False\<close> and \<open>timeout=5\<close>; only
  \<open>FileNotFoundError\<close> and \<open>TimeoutExpired\<close> are caught.  The function is parametrised by
  the way effects are performed, since the signal handler calls it too.
\<close>

definition enviar_notificacao_via ::
  "(event \<Rightarrow> unit prog) \<Rightarrow> world \<Rightarrow> notif \<Rightarrow> urgency \<Rightarrow> unit prog" where
  "enviar_notificacao_via em w titulo urgencia =
     try_except
       (bnd (subprocess_run em (NotifySend urgencia titulo 5) (notify_send w titulo urgencia))
          (\<lambda>_. pure ()))
       (\<lambda>e. if e = OSError FileNotFound then Some (pure ())
            else if e = TimeoutExpired then Some (pure ())
            else None)"

text \<open>
  \<open>_handler_sinal\<close>: warning, flag, critical notification, \<open>sys.exit(130)\<close>.  The handler
  itself runs without a further signal.
\<close>

definition handler_sinal :: "world \<Rightarrow> signal \<Rightarrow> unit prog" where
  "handler_sinal w signum =
     seq (emit_raw (Log WARNING (SinalRecebido signum)))
       (seq (modify (\<lambda>s. s\<lparr>interrompido := True\<rparr>))
          (seq (enviar_notificacao_via emit_raw w (BackupInterrompido signum) Critical)
             (raise (SystemExit 130))))"

text \<open>
  Performing an effect: when the signal arrives at this point of the trace the handler
  runs instead (and the effect does not happen, since the handler does not return).
\<close>

definition emit :: "world \<Rightarrow> event \<Rightarrow> unit prog" where
  "emit w e =
     (\<lambda>sg s. case sg of
        Some (k, signum) \<Rightarrow>
          if k = length (trace s) then handler_sinal w signum None s else emit_raw e sg s
      | None \<Rightarrow> emit_raw e sg s)"

definition logger :: "world \<Rightarrow> level \<Rightarrow> log_msg \<Rightarrow> unit prog" where
  "logger w l m = emit w (Log l m)"

definition enviar_notificacao :: "world \<Rightarrow> notif \<Rightarrow> urgency \<Rightarrow> unit prog" where
  "enviar_notificacao w titulo urgencia = enviar_notificacao_via (emit w) w titulo urgencia"

subsection \<open>The steps of the backup\<close>

text \<open>\<open>verificar_hd_montado\<close>.\<close>

definition verificar_hd_montado :: "world \<Rightarrow> BackupConfig \<Rightarrow> bool prog" where
  "verificar_hd_montado w cfg =
     seq (emit w (Enter VerificarHdMontado))
       (if \<not> dest_exists w
        then seq (logger w ERROR DestinoInexistente)
               (seq (enviar_notificacao w DestinoNaoExiste Critical) (pure False))
        else bnd (subprocess_run (emit w) (RunMountpoint [''mountpoint'', ''-q'', destino cfg])
                    (mountpoint_run w))
               (\<lambda>resultado.
                  if returncode resultado \<noteq> 0
                  then seq (logger w ERROR NaoMontado)
                         (seq (enviar_notificacao w HdNaoMontado Critical) (pure False))
                  else seq (logger w INFO Montado) (pure True)))"

text \<open>
  \<open>verificar_espaco_disco\<close>.  The percentage \<open>(uso.used / uso.total) * 100\<close> is computed
  before anything is logged, and raises \<open>ZeroDivisionError\<close> when the total is zero.
\<close>

definition livre_gb :: "usage \<Rightarrow> rat" where
  "livre_gb uso = of_nat (free_bytes uso) / 1024 ^ 3"

definition verificar_espaco_disco :: "world \<Rightarrow> BackupConfig \<Rightarrow> bool prog" where
  "verificar_espaco_disco w cfg =
     seq (emit w (Enter VerificarEspacoDisco))
       (bnd (try_except
               (bnd (os_call (emit w) DiskUsage (disk_usage w)) (\<lambda>uso. pure (Some uso)))
               (\<lambda>e. if is_OSError e
                    then Some (seq (logger w ERROR (ErroVerificarEspaco e))
                                 (seq (enviar_notificacao w (ErroEspaco e) Critical) (pure None)))
                    else None))
          (\<lambda>r. case r of
                  None \<Rightarrow> pure False
                | Some uso \<Rightarrow>
                    if total_bytes uso = 0 then raise ZeroDivisionError
                    else seq (logger w INFO (EspacoEmDisco uso))
                           (if livre_gb uso < espaco_minimo_gb cfg
                            then seq (logger w ERROR HdCheioMsg)
                                   (seq (enviar_notificacao w HdCheio Critical) (pure False))
                            else seq (if livre_gb uso < espaco_minimo_gb cfg * 2
                                      then seq (logger w WARNING EspacoBaixoMsg)
                                             (enviar_notificacao w EspacoBaixo Normal)
                                      else pure ())
                                   (pure True))))"

text \<open>\<open>_registrar_resumo\<close>: the files under the backup directory, counted and summed.\<close>

definition registrar_resumo :: "world \<Rightarrow> bool \<Rightarrow> timedelta \<Rightarrow> unit prog" where
  "registrar_resumo w dry_run duracao =
     seq (emit w (Enter RegistrarResumo))
       (bnd get_backup_dir
          (\<lambda>dir. if dir \<noteq> None \<and> backup_dir_exists w \<and> \<not> dry_run
                 then try_except
                        (bnd (os_call (emit w) Rglob (rglob_sizes w))
                           (\<lambda>sizes. logger w INFO
                                       (Resumo (length sizes) (sum_list sizes)
                                          (formatar_duracao duracao))))
                        (\<lambda>e. if is_OSError e then Some (logger w WARNING (ResumoErro e))
                             else None)
                 else pure ()))"

fun for_each :: "('a \<Rightarrow> unit prog) \<Rightarrow> 'a list \<Rightarrow> unit prog" where
  "for_each f [] = pure ()"
| "for_each f (x # xs) = seq (f x) (for_each f xs)"

text \<open>\<open>str(Path(destino) / nome)\<close>, for a destination written without a trailing slash.\<close>

definition path_child :: "string \<Rightarrow> string \<Rightarrow> string" where
  "path_child d nome = d @ ''/'' @ nome"

definition rsync_cmd :: "BackupConfig \<Rightarrow> bool \<Rightarrow> string \<Rightarrow> string list" where
  "rsync_cmd cfg dry_run dir =
     [''rsync'', ''-rltvh'', ''--progress'', ''--delete'', ''--no-perms'', ''--no-owner'',
      ''--no-group'']
     @ (if dry_run then [''--dry-run''] else [])
     @ map (\<lambda>exclusao. ''--exclude='' @ exclusao) (exclusoes cfg)
     @ [origem cfg, path_child (destino cfg) dir]"

text \<open>The name of the directory of the day, \<open>f"backup_{data}"\<close>.\<close>

definition backup_dir_name :: "world \<Rightarrow> string" where
  "backup_dir_name w = ''backup_'' @ strftime_ymd (now_backup w)"

text \<open>\<open>executar_rsync\<close>.\<close>

definition executar_rsync :: "world \<Rightarrow> BackupConfig \<Rightarrow> bool \<Rightarrow> bool prog" where
  "executar_rsync w cfg dry_run =
     seq (emit w (Enter ExecutarRsync))
       (let dir = backup_dir_name w;
            cmd = rsync_cmd cfg dry_run dir
        in seq (modify (\<lambda>s. s\<lparr>backup_dir := Some dir\<rparr>))
          (seq (if \<not> dry_run
                then os_call (emit w) (Mkdir dir)
                       (case mkdir_result w of None \<Rightarrow> Inr () | Some k \<Rightarrow> Inl k)
                else pure ())
          (seq (if dry_run then logger w INFO DryRunAtivado else pure ())
          (seq (logger w INFO IniciandoRsync)
          (seq (logger w DEBUG (Comando cmd))
          (bnd (try_except
                  (bnd (subprocess_run (emit w) (RunRsync cmd) (rsync_run w cmd))
                     (\<lambda>resultado. pure (Some resultado)))
                  (\<lambda>e. if is_Exception e
                       then Some (seq (logger w ERROR (ErroExecutarRsync e))
                                    (seq (enviar_notificacao w (ErroRsync e) Critical)
                                       (pure None)))
                       else None))
             (\<lambda>r. case r of
                     None \<Rightarrow> pure False
                   | Some resultado \<Rightarrow>
                       seq (if stdout resultado \<noteq> []
                            then for_each (\<lambda>linha. logger w DEBUG (RsyncLinha linha))
                                   (last_n 20 (split_nl (py_strip (stdout resultado))))
                            else pure ())
                         (if returncode resultado = 0
                          then seq (logger w INFO
                                      (BackupSucesso (formatar_duracao (rsync_duration w))))
                                 (seq (registrar_resumo w dry_run (rsync_duration w))
                                    (pure True))
                          else seq (logger w ERROR
                                      (RsyncFalhouMsg (returncode resultado)
                                         (if stderr resultado \<noteq> []
                                          then py_strip (stderr resultado)
                                          else ''Erro desconhecido'')))
                                 (seq (enviar_notificacao w
                                         (RsyncFalhou (returncode resultado)) Critical)
                                    (pure False))))))))))"

subsection \<open>Rotation\<close>

text \<open>What a Python function returns when the value matters: \<open>None\<close> or an integer.\<close>

datatype pyval = PyNone | PyInt int

text \<open>
  The body of the \<open>try\<close> in the loop of \<open>rotacionar_backups\<close>: the date is read from
  the name with every occurrence of \<open>backup_\<close> removed; a directory older than the limit
  is removed and counted.
\<close>

definition rotacao_corpo :: "world \<Rightarrow> instant \<Rightarrow> entry \<Rightarrow> nat \<Rightarrow> nat prog" where
  "rotacao_corpo w limite pasta removidos =
     (case strptime_ymd (py_replace (name pasta) ''backup_'' []) of
        None \<Rightarrow> raise ValueError
      | Some data_backup \<Rightarrow>
          if before (instant_of data_backup) limite
          then seq (logger w INFO (RemovendoAntigo (name pasta)))
                 (seq (os_call (emit w) (Rmtree (name pasta) (rmtree pasta = None))
                         (case rmtree pasta of None \<Rightarrow> Inr () | Some k \<Rightarrow> Inl k))
                    (pure (removidos + 1)))
          else pure removidos)"

fun rotacao_loop :: "world \<Rightarrow> instant \<Rightarrow> entry list \<Rightarrow> nat \<Rightarrow> nat prog" where
  "rotacao_loop w limite [] removidos = pure removidos"
| "rotacao_loop w limite (pasta # resto) removidos =
     (if \<not> is_dir pasta \<or> \<not> startswith (name pasta) ''backup_''
      then rotacao_loop w limite resto removidos
      else bnd (try_except (rotacao_corpo w limite pasta removidos)
                  (\<lambda>e. if e = ValueError then Some (pure removidos)
                       else if is_OSError e
                       then Some (seq (logger w ERROR (ErroRemover (name pasta) e))
                                    (pure removidos))
                       else None))
             (\<lambda>n. rotacao_loop w limite resto n))"

text \<open>\<open>rotacionar_backups\<close>; it has no \<open>return\<close> with a value.\<close>

definition rotacionar_backups :: "world \<Rightarrow> BackupConfig \<Rightarrow> bool \<Rightarrow> pyval prog" where
  "rotacionar_backups w cfg dry_run =
     seq (emit w (Enter RotacionarBackups))
       (if dry_run then seq (logger w INFO DryRunPulandoRotacao) (pure PyNone)
        else case minus_days (now_rotation w) (retencao_dias cfg) of
               None \<Rightarrow> raise OverflowError
             | Some limite \<Rightarrow>
                 seq (logger w INFO (VerificandoAntigos (retencao_dias cfg) limite))
                   (bnd (os_call (emit w) IterDir (iterdir w))
                      (\<lambda>pastas.
                         bnd (rotacao_loop w limite (sort_key name pastas) 0)
                           (\<lambda>removidos.
                              seq (if removidos > 0 then logger w INFO (Removidos removidos)
                                   else logger w INFO NenhumRemovido)
                                (pure PyNone)))))"

subsection \<open>The orchestration and the process\<close>

text \<open>\<open>executar\<close>.\<close>

definition executar :: "world \<Rightarrow> BackupConfig \<Rightarrow> bool \<Rightarrow> bool prog" where
  "executar w cfg dry_run =
     seq (logger w INFO Separador)
    (seq (logger w INFO BackupIniciado)
    (seq (if dry_run then logger w INFO ModoDryRun else pure ())
    (seq (logger w INFO Separador)
    (seq (logger w INFO (Etapa 1))
    (bnd (verificar_hd_montado w cfg)
       (\<lambda>montado.
          if \<not> montado then pure False
          else seq (logger w INFO (Etapa 2))
              (bnd (verificar_espaco_disco w cfg)
                 (\<lambda>espaco.
                    if \<not> espaco then pure False
                    else seq (logger w INFO (Etapa 3))
                        (bnd (executar_rsync w cfg dry_run)
                           (\<lambda>sucesso.
                              seq (if sucesso
                                   then seq (logger w INFO (Etapa 4))
                                          (seq (bnd (rotacionar_backups w cfg dry_run)
                                                  (\<lambda>_. pure ()))
                                             (if \<not> dry_run
                                              then enviar_notificacao w BackupConcluido Low
                                              else pure ()))
                                   else pure ())
                             (seq (logger w INFO Separador)
                             (seq (logger w INFO (BackupFinalizado sucesso))
                             (seq (logger w INFO Separador)
                                (pure sucesso))))))))))))))"

text \<open>
  The exit status of the process: \<open>main\<close> ends with \<open>sys.exit(0 if sucesso else 1)\<close>, a
  \<open>SystemExit\<close> raised on the way carries its own status, and any other exception that
  nothing catches ends the interpreter with status 1.
\<close>

definition exit_status :: "exn + bool \<Rightarrow> int" where
  "exit_status r =
     (case r of
        Inr sucesso \<Rightarrow> if sucesso then 0 else 1
      | Inl (SystemExit c) \<Rightarrow> c
      | Inl _ \<Rightarrow> 1)"

text \<open>
  \<open>main\<close>, from the loaded configuration on: the required fields are checked, the manager
  is built (which installs the signal handler) and run.
\<close>

definition main ::
  "world \<Rightarrow> BackupConfig \<Rightarrow> bool \<Rightarrow> (nat \<times> signal) option \<Rightarrow> int \<times> state" where
  "main w cfg dry_run sg =
     (if origem cfg = [] \<or> destino cfg = [] then (1, initial)
      else case executar w cfg dry_run sg initial of (r, s) \<Rightarrow> (exit_status r, s))"

subsection \<open>Reading a trace\<close>

fun notifications :: "event list \<Rightarrow> (notif \<times> urgency) list" where
  "notifications [] = []"
| "notifications (NotifySend u n t # es) = (n, u) # notifications es"
| "notifications (_ # es) = notifications es"

fun removed :: "event list \<Rightarrow> string list" where
  "removed [] = []"
| "removed (Rmtree nome ok # es) = (if ok then nome # removed es else removed es)"
| "removed (_ # es) = removed es"

fun attempted :: "event list \<Rightarrow> string list" where
  "attempted [] = []"
| "attempted (Rmtree nome ok # es) = nome # attempted es"
| "attempted (_ # es) = attempted es"

fun mutates :: "event \<Rightarrow> bool" where
  "mutates (Mkdir d) = True"
| "mutates (Rmtree nome ok) = True"
| "mutates (RunRsync cmd) = (''--dry-run'' \<notin> set cmd)"
| "mutates _ = False"

subsection \<open>Notions used in the statements\<close>

text \<open>
  What a call of \<open>enviar_notificacao\<close> comes to when no signal arrives: it returns, or
  the exception of \<open>subprocess.run\<close> that neither \<open>except\<close> clause matches propagates.
\<close>

definition notify_result :: "world \<Rightarrow> notif \<Rightarrow> urgency \<Rightarrow> exn + unit" where
  "notify_result w titulo urgencia =
     (case notify_send w titulo urgencia of
        Inr c \<Rightarrow> Inr ()
      | Inl f \<Rightarrow> if f = RunOSError FileNotFound \<or> f = RunTimeoutExpired then Inr ()
                 else Inl (exn_of f))"

text \<open>The two effects of the signal handler.\<close>

definition handler_events :: "signal \<Rightarrow> event list" where
  "handler_events signum =
     [Log WARNING (SinalRecebido signum), NotifySend Critical (BackupInterrompido signum) 5]"

fun urgency_of :: "notif \<times> urgency \<Rightarrow> urgency" where
  "urgency_of (n, u) = u"

definition with_urgency :: "urgency \<Rightarrow> event list \<Rightarrow> (notif \<times> urgency) list" where
  "with_urgency u es = filter (\<lambda>x. urgency_of x = u) (notifications es)"

text \<open>The events of \<open>executar\<close> before the first step.\<close>

definition preamble :: "bool \<Rightarrow> event list" where
  "preamble dry_run =
     [Log INFO Separador, Log INFO BackupIniciado]
     @ (if dry_run then [Log INFO ModoDryRun] else [])
     @ [Log INFO Separador, Log INFO (Etapa 1)]"

text \<open>The part of \<open>executar\<close> from the third step on, and its fourth step.\<close>

definition etapa_4 :: "world \<Rightarrow> BackupConfig \<Rightarrow> bool \<Rightarrow> bool \<Rightarrow> unit prog" where
  "etapa_4 w cfg dry_run sucesso =
     (if sucesso
      then seq (logger w INFO (Etapa 4))
             (seq (bnd (rotacionar_backups w cfg dry_run) (\<lambda>_. pure ()))
                (if \<not> dry_run then enviar_notificacao w BackupConcluido Low else pure ()))
      else pure ())"

definition etapas_3_4 :: "world \<Rightarrow> BackupConfig \<Rightarrow> bool \<Rightarrow> bool prog" where
  "etapas_3_4 w cfg dry_run =
     seq (logger w INFO (Etapa 3))
       (bnd (executar_rsync w cfg dry_run)
          (\<lambda>sucesso.
             seq (etapa_4 w cfg dry_run sucesso)
            (seq (logger w INFO Separador)
            (seq (logger w INFO (BackupFinalizado sucesso))
            (seq (logger w INFO Separador)
               (pure sucesso))))))"

text \<open>
  A program that, whatever the state, only appends events satisfying \<open>P\<close> to the trace
  (under the signal \<open>sg\<close>); \<open>handler_ok\<close> says that the effects of the signal handler
  satisfy \<open>P\<close> too, when a signal can arrive.
\<close>

definition emits :: "(nat \<times> signal) option \<Rightarrow> (event \<Rightarrow> bool) \<Rightarrow> 'a prog \<Rightarrow> bool" where
  "emits sg P p = (\<forall>s. \<exists>evs. trace (snd (p sg s)) = trace s @ evs \<and> list_all P evs)"

definition handler_ok :: "(nat \<times> signal) option \<Rightarrow> (event \<Rightarrow> bool) \<Rightarrow> bool" where
  "handler_ok sg P = (\<forall>k signum. sg = Some (k, signum) \<longrightarrow> list_all P (handler_events signum))"

text \<open>
  The events of the steps in a run without a signal, as lists: the lines of rsync's output
  that are logged, the events of \<open>_registrar_resumo\<close>, of \<open>executar_rsync\<close> up to the call of
  rsync, and of the loop of the rotation.
\<close>

definition rsync_lines :: "completed \<Rightarrow> event list" where
  "rsync_lines c =
     (if stdout c \<noteq> []
      then map (\<lambda>linha. Log DEBUG (RsyncLinha linha)) (last_n 20 (split_nl (py_strip (stdout c))))
      else [])"

definition resumo_events :: "world \<Rightarrow> bool \<Rightarrow> timedelta \<Rightarrow> event list" where
  "resumo_events w dry_run duracao =
     Enter RegistrarResumo #
     (if backup_dir_exists w \<and> \<not> dry_run
      then Rglob #
           (case rglob_sizes w of
              Inr sizes \<Rightarrow>
                [Log INFO (Resumo (length sizes) (sum_list sizes) (formatar_duracao duracao))]
            | Inl k \<Rightarrow> [Log WARNING (ResumoErro (OSError k))])
      else [])"

definition rsync_start_events :: "world \<Rightarrow> BackupConfig \<Rightarrow> bool \<Rightarrow> event list" where
  "rsync_start_events w cfg dry_run =
     [Enter ExecutarRsync]
     @ (if \<not> dry_run then [Mkdir (backup_dir_name w)] else [])
     @ (if dry_run then [Log INFO DryRunAtivado] else [])
     @ [Log INFO IniciandoRsync, Log DEBUG (Comando (rsync_cmd cfg dry_run (backup_dir_name w))),
        RunRsync (rsync_cmd cfg dry_run (backup_dir_name w))]"

text \<open>
  A child of the destination that the loop of the rotation tries to remove: a directory
  whose name starts with \<open>backup_\<close> and, with every \<open>backup_\<close> removed, parses as a date
  before the limit.
\<close>

definition candidate :: "instant \<Rightarrow> entry \<Rightarrow> bool" where
  "candidate limite pasta =
     (is_dir pasta \<and> startswith (name pasta) ''backup_''
      \<and> (case strptime_ymd (py_replace (name pasta) ''backup_'' []) of
            Some data_backup \<Rightarrow> before (instant_of data_backup) limite
          | None \<Rightarrow> False))"

fun rotacao_events :: "instant \<Rightarrow> entry list \<Rightarrow> event list" where
  "rotacao_events limite [] = []"
| "rotacao_events limite (pasta # resto) =
     (if candidate limite pasta
      then [Log INFO (RemovendoAntigo (name pasta)), Rmtree (name pasta) (rmtree pasta = None)]
           @ (case rmtree pasta of
                None \<Rightarrow> []
              | Some k \<Rightarrow> [Log ERROR (ErroRemover (name pasta) (OSError k))])
      else [])
     @ rotacao_events limite resto"

text \<open>The run reaches the transfer: both checks pass.\<close>

definition mount_ok :: "world \<Rightarrow> bool" where
  "mount_ok w =
     (dest_exists w \<and> (case mountpoint_run w of Inr c \<Rightarrow> returncode c = 0 | Inl f \<Rightarrow> False))"

definition space_ok :: "world \<Rightarrow> BackupConfig \<Rightarrow> bool" where
  "space_ok w cfg =
     (case disk_usage w of
        Inl k \<Rightarrow> False
      | Inr uso \<Rightarrow>
          total_bytes uso \<noteq> 0 \<and> \<not> livre_gb uso < espaco_minimo_gb cfg
          \<and> (if livre_gb uso < espaco_minimo_gb cfg * 2
              then notify_result w EspacoBaixo Normal = Inr () else True))"

text \<open>
  A hard failure before the transfer: the run does not succeed and the process exits with
  status 1, one notification was sent, critical, the transfer was not entered and rsync
  was not run; and the run returned \<open>False\<close> unless the notification call itself raised.
\<close>

definition aborted_before_transfer :: "world \<Rightarrow> notif \<Rightarrow> (exn + bool) \<times> state \<Rightarrow> bool" where
  "aborted_before_transfer w n rs =
     (case rs of
        (r, s) \<Rightarrow>
          r \<noteq> Inr True \<and> exit_status r = 1
          \<and> notifications (trace s) = [(n, Critical)]
          \<and> Enter ExecutarRsync \<notin> set (trace s)
          \<and> (\<forall>cmd. RunRsync cmd \<notin> set (trace s))
          \<and> (notify_result w n Critical = Inr () \<longrightarrow> r = Inr False))"

text \<open>
  A failed transfer: the run does not succeed and the process exits with status 1, exactly
  one critical notification was sent, the rotation was not entered, the destination was not
  listed and nothing was removed; and the run returned \<open>False\<close> unless the notification
  call itself raised.
\<close>

definition transfer_failed :: "world \<Rightarrow> notif \<Rightarrow> (exn + bool) \<times> state \<Rightarrow> bool" where
  "transfer_failed w n rs =
     (case rs of
        (r, s) \<Rightarrow>
          r \<noteq> Inr True \<and> exit_status r = 1
          \<and> with_urgency Critical (trace s) = [(n, Critical)]
          \<and> Enter RotacionarBackups \<notin> set (trace s)
          \<and> IterDir \<notin> set (trace s)
          \<and> attempted (trace s) = []
          \<and> (notify_result w n Critical = Inr () \<longrightarrow> r = Inr False))"

text \<open>The rotation gets through: the limit is a representable date and the listing succeeds.\<close>

definition rotation_completes :: "world \<Rightarrow> BackupConfig \<Rightarrow> bool" where
  "rotation_completes w cfg =
     (minus_days (now_rotation w) (retencao_dias cfg) \<noteq> None
      \<and> (case iterdir w of Inr pastas \<Rightarrow> True | Inl k \<Rightarrow> False))"

subsection \<open>A concrete run\<close>

text \<open>
  The example of the specification: on 2025-01-01, with sixty days of retention, the
  destination holds \<open>backup_2024-01-01\<close>, \<open>backup_2024-12-01\<close> and a directory of
  another name.  Everything else answers as on a healthy system.
\<close>

definition cfg_ex :: BackupConfig where
  "cfg_ex = \<lparr>origem = ''/home/user'', destino = ''/mnt/hd'', log_dir = ''~/logs/backup'',
     retencao_dias = 60, espaco_minimo_gb = 5, exclusoes = [''*.tmp'']\<rparr>"

definition done_ok :: completed where
  "done_ok = \<lparr>returncode = 0, stdout = [], stderr = []\<rparr>"

definition listing_ex :: "entry list" where
  "listing_ex =
     [\<lparr>name = ''notes'', is_dir = True, rmtree = None\<rparr>,
      \<lparr>name = ''backup_2024-12-01'', is_dir = True, rmtree = None\<rparr>,
      \<lparr>name = ''backup_2024-01-01'', is_dir = True, rmtree = None\<rparr>]"

definition world_ex :: world where
  "world_ex =
     \<lparr>dest_exists = True,
      mountpoint_run = Inr done_ok,
      disk_usage = Inr \<lparr>total_bytes = 536870912000, used_bytes = 107374182400,
                         free_bytes = 429496729600\<rparr>,
      now_backup = \<lparr>year = 2025, month = 1, day = 1, usec = 10800000000\<rparr>,
      mkdir_result = None,
      rsync_run = (\<lambda>cmd. Inr done_ok),
      rsync_duration = 61000000,
      backup_dir_exists = True,
      rglob_sizes = Inr [10, 20],
      now_rotation = \<lparr>year = 2025, month = 1, day = 1, usec = 10861000000\<rparr>,
      iterdir = Inr listing_ex,
      notify_send = (\<lambda>n u. Inr done_ok)\<rparr>"

text \<open>
  Variations of the example: seven GiB free (between the minimum of five and twice that),
  one GiB free, an empty filesystem report, and a \<open>notify-send\<close> that is present but may
  not be executed.
\<close>

definition uso_low :: usage where
  "uso_low = \<lparr>total_bytes = 536870912000, used_bytes = 529354719232, free_bytes = 7516192768\<rparr>"

definition uso_full :: usage where
  "uso_full = \<lparr>total_bytes = 536870912000, used_bytes = 535797170176, free_bytes = 1073741824\<rparr>"

definition uso_zero :: usage where
  "uso_zero = \<lparr>total_bytes = 0, used_bytes = 0, free_bytes = 0\<rparr>"

definition no_permission :: "notif \<Rightarrow> urgency \<Rightarrow> run_failure + completed" where
  "no_permission n u = Inl (RunOSError PermissionDenied)"

text \<open>
  A destination with two old backups, the first of which may not be removed.
\<close>

definition listing_locked :: "entry list" where
  "listing_locked =
     [\<lparr>name = ''backup_2024-01-01'', is_dir = True, rmtree = None\<rparr>,
      \<lparr>name = ''backup_2023-06-01'', is_dir = True, rmtree = Some PermissionDenied\<rparr>]"

definition world_locked :: world where
  "world_locked = world_ex\<lparr>iterdir := Inr listing_locked\<rparr>"

text \<open>
  The pattern of the specification, read strictly: \<open>backup_\<close>, four digits, a hyphen, two
  digits, a hyphen, two digits, and nothing else, the digits being a date of the calendar.
\<close>

definition spec_date :: "string \<Rightarrow> datetime option" where
  "spec_date nome =
     (if take 7 nome = ''backup_''
      then (case drop 7 nome of
              [y1, y2, y3, y4, h1, m1, m2, h2, d1, d2] \<Rightarrow>
                if list_all is_digit [y1, y2, y3, y4, m1, m2, d1, d2]
                   \<and> h1 = CHR ''-'' \<and> h2 = CHR ''-''
                   \<and> valid_date
                        (1000 * digit_val y1 + 100 * digit_val y2 + 10 * digit_val y3 + digit_val y4)
                        (10 * digit_val m1 + digit_val m2) (10 * digit_val d1 + digit_val d2)
                then Some \<lparr>year = 1000 * digit_val y1 + 100 * digit_val y2 + 10 * digit_val y3
                                  + digit_val y4,
                           month = 10 * digit_val m1 + digit_val m2,
                           day = 10 * digit_val d1 + digit_val d2, usec = 0\<rparr>
                else None
            | _ \<Rightarrow> None)
      else None)"

text \<open>
  Destinations that hold a backup made exactly sixty days before the example's run and one
  made the day after, and a directory whose name has a month and a day of one digit.
\<close>

definition listing_edge :: "entry list" where
  "listing_edge =
     [\<lparr>name = ''backup_2024-11-03'', is_dir = True, rmtree = None\<rparr>,
      \<lparr>name = ''backup_2024-11-02'', is_dir = True, rmtree = None\<rparr>]"

definition world_edge :: world where
  "world_edge = world_ex\<lparr>iterdir := Inr listing_edge\<rparr>"

definition listing_lenient :: "entry list" where
  "listing_lenient = [\<lparr>name = ''backup_2024-1-5'', is_dir = True, rmtree = None\<rparr>]"

definition world_lenient :: world where
  "world_lenient = world_ex\<lparr>iterdir := Inr listing_lenient\<rparr>"

text \<open>
  Two states that agree on the attributes of the manager and on the events of the trace
  selected by \<open>keep\<close>; two programs that, without a signal, take such states to such
  states with the same result; two worlds that answer alike except, possibly, for the
  listing of the destination and for the way a notification call is swallowed.
\<close>

definition same :: "(event \<Rightarrow> bool) \<Rightarrow> state \<Rightarrow> state \<Rightarrow> bool" where
  "same keep s t =
     (interrompido s = interrompido t \<and> backup_dir s = backup_dir t
      \<and> filter keep (trace s) = filter keep (trace t))"

definition sim :: "(event \<Rightarrow> bool) \<Rightarrow> 'a prog \<Rightarrow> 'a prog \<Rightarrow> bool" where
  "sim keep p q =
     (\<forall>s t. same keep s t \<longrightarrow>
        fst (p None s) = fst (q None t) \<and> same keep (snd (p None s)) (snd (q None t)))"

definition agree :: "world \<Rightarrow> world \<Rightarrow> bool" where
  "agree w w' =
     (dest_exists w' = dest_exists w \<and> mountpoint_run w' = mountpoint_run w
      \<and> disk_usage w' = disk_usage w \<and> now_backup w' = now_backup w
      \<and> mkdir_result w' = mkdir_result w \<and> rsync_run w' = rsync_run w
      \<and> rsync_duration w' = rsync_duration w \<and> backup_dir_exists w' = backup_dir_exists w
      \<and> rglob_sizes w' = rglob_sizes w \<and> now_rotation w' = now_rotation w
      \<and> (\<forall>n u. notify_result w' n u = notify_result w n u))"

text \<open>The world in which every removal succeeds, and the one in which every notification does.\<close>

definition all_removals_succeed :: "world \<Rightarrow> world" where
  "all_removals_succeed w =
     w\<lparr>iterdir := (case iterdir w of
                     Inl k \<Rightarrow> Inl k
                   | Inr pastas \<Rightarrow> Inr (map (\<lambda>p. p\<lparr>rmtree := None\<rparr>) pastas))\<rparr>"

definition notifier_works :: "world \<Rightarrow> world" where
  "notifier_works w = w\<lparr>notify_send := (\<lambda>n u. Inr done_ok)\<rparr>"

text \<open>
  The answers of the notification call that \<open>enviar_notificacao\<close> lets pass: the tool ran,
  whatever its exit status (\<open>check=False\<close>), it is absent, or it ran out of time.
\<close>

definition swallowed :: "run_failure + completed \<Rightarrow> bool" where
  "swallowed answer =
     (case answer of
        Inr c \<Rightarrow> True
      | Inl f \<Rightarrow> f = RunOSError FileNotFound \<or> f = RunTimeoutExpired)"

text \<open>A system without \<open>notify-send\<close>.\<close>

definition no_desktop :: "notif \<Rightarrow> urgency \<Rightarrow> run_failure + completed" where
  "no_desktop n u = Inl (RunOSError FileNotFound)"

text \<open>Neither a log record nor a removal.\<close>

fun outcome_event :: "event \<Rightarrow> bool" where
  "outcome_event (Log l m) = False"
| "outcome_event (Rmtree nome ok) = False"
| "outcome_event _ = True"

subsection \<open>The duration formatter\<close>

lemma total_seg_nonneg: "0 \<le> d \<Longrightarrow> total_seg d = d div 1000000"
  by (simp add: total_seg_def)

text \<open>
  C9. For a non-negative duration of \<open>s\<close> whole seconds the formatter gives \<open>"Ns"\<close> when
  \<open>s\<close> is 0 to 59, \<open>"Mmin Ss"\<close> when \<open>s\<close> is 60 to 3599 (whole minutes, remaining seconds),
  and \<open>"Hh Mmin Ss"\<close> from 3600 on (whole hours, remaining minutes, remaining seconds).
\<close>

theorem formatar_duracao_bands:
  assumes "0 \<le> d"
  shows "formatar_duracao d =
     (let s = d div 1000000 in
      if s < 60 then str_int s @ ''s''
      else if s < 3600 then str_int (s div 60) @ ''min '' @ str_int (s mod 60) @ ''s''
      else str_int (s div 3600) @ ''h '' @ str_int (s mod 3600 div 60) @ ''min ''
             @ str_int (s mod 60) @ ''s'')"
proof -
  define s where "s = d div 1000000"
  have s0: "0 \<le> s" using assms by (simp add: s_def)
  have ts: "total_seg d = s" using assms by (simp add: total_seg_nonneg s_def)
  have sec: "s mod 3600 mod 60 = s mod 60"
    by (simp add: mod_mod_cancel)
  consider (a) "s < 60" | (b) "60 \<le> s" "s < 3600" | (c) "3600 \<le> s" by linarith
  then have "formatar_duracao d =
     (if s < 60 then str_int s @ ''s''
      else if s < 3600 then str_int (s div 60) @ ''min '' @ str_int (s mod 60) @ ''s''
      else str_int (s div 3600) @ ''h '' @ str_int (s mod 3600 div 60) @ ''min ''
             @ str_int (s mod 60) @ ''s'')"
  proof cases
    case a
    with s0 have "s div 3600 = 0" "s mod 3600 = s" "s div 60 = 0" "s mod 60 = s" by simp_all
    with a show ?thesis by (simp add: formatar_duracao_def ts Let_def)
  next
    case b
    with s0 have h: "s div 3600 = 0" "s mod 3600 = s" by simp_all
    from b have "0 < s div 60" by (simp add: pos_imp_zdiv_pos_iff)
    with b h show ?thesis by (simp add: formatar_duracao_def ts Let_def)
  next
    case c
    then have "0 < s div 3600" by (simp add: pos_imp_zdiv_pos_iff)
    with c sec show ?thesis by (simp add: formatar_duracao_def ts Let_def)
  qed
  then show ?thesis by (simp add: s_def Let_def)
qed

theorem formatar_duracao_bands_witness:
  "(0::int) \<le> 3725000000 \<and> formatar_duracao 3725000000 = ''1h 2min 5s''
   \<and> formatar_duracao 59999999 = ''59s'' \<and> formatar_duracao 3599000000 = ''59min 59s''"
  using formatar_duracao_bands [of 3725000000] formatar_duracao_bands [of 59999999]
    formatar_duracao_bands [of 3599000000]
  by (simp add: str_int_def str_nat.simps digit_char_def)

subsection \<open>Running without a signal\<close>

lemma pure_apply: "pure x sg s = (Inr x, s)"
  by (simp add: pure_def)

lemma raise_apply: "raise e sg s = (Inl e, s)"
  by (simp add: raise_def)

lemma bnd_apply:
  "bnd m f sg s = (case m sg s of (Inl e, s') \<Rightarrow> (Inl e, s') | (Inr x, s') \<Rightarrow> f x sg s')"
  by (simp add: bnd_def)

lemma seq_apply:
  "seq m n sg s = (case m sg s of (Inl e, s') \<Rightarrow> (Inl e, s') | (Inr x, s') \<Rightarrow> n sg s')"
  by (simp add: seq_def bnd_def)

lemma try_except_apply:
  "try_except m h sg s =
     (case m sg s of
        (Inl e, s') \<Rightarrow> (case h e of Some k \<Rightarrow> k sg s' | None \<Rightarrow> (Inl e, s'))
      | (Inr x, s') \<Rightarrow> (Inr x, s'))"
  by (simp add: try_except_def)

lemma modify_apply: "modify f sg s = (Inr (), f s)"
  by (simp add: modify_def)

lemma get_backup_dir_apply: "get_backup_dir sg s = (Inr (backup_dir s), s)"
  by (simp add: get_backup_dir_def)

lemma emit_raw_apply: "emit_raw e sg s = (Inr (), s\<lparr>trace := trace s @ [e]\<rparr>)"
  by (simp add: emit_raw_def modify_def)

lemma if_apply: "(if c then p else q) sg s = (if c then p sg s else q sg s)"
  by simp

lemma case_option_apply:
  "(case x of None \<Rightarrow> p | Some y \<Rightarrow> q y) sg s = (case x of None \<Rightarrow> p sg s | Some y \<Rightarrow> q y sg s)"
  by (cases x) simp_all

lemma case_sum_apply:
  "(case x of Inl a \<Rightarrow> p a | Inr b \<Rightarrow> q b) sg s = (case x of Inl a \<Rightarrow> p a sg s | Inr b \<Rightarrow> q b sg s)"
  by (cases x) simp_all

lemmas prog_simps = pure_apply raise_apply bnd_apply seq_apply try_except_apply modify_apply
  get_backup_dir_apply emit_raw_apply if_apply case_option_apply case_sum_apply

lemma emit_None: "emit w e None s = (Inr (), s\<lparr>trace := trace s @ [e]\<rparr>)"
  by (simp add: emit_def emit_raw_apply)

lemma subprocess_run_None:
  "subprocess_run (emit w) ev answer None s =
     (case answer of Inl f \<Rightarrow> Inl (exn_of f) | Inr c \<Rightarrow> Inr c, s\<lparr>trace := trace s @ [ev]\<rparr>)"
  by (cases answer) (simp_all add: subprocess_run_def prog_simps emit_None)

lemma os_call_None:
  "os_call (emit w) ev answer None s =
     (case answer of Inl k \<Rightarrow> Inl (OSError k) | Inr x \<Rightarrow> Inr x, s\<lparr>trace := trace s @ [ev]\<rparr>)"
  by (cases answer) (simp_all add: os_call_def prog_simps emit_None)

lemma logger_None: "logger w l m None s = (Inr (), s\<lparr>trace := trace s @ [Log l m]\<rparr>)"
  by (simp add: logger_def emit_None)

lemma enviar_notificacao_None:
  "enviar_notificacao w n u None s =
     (notify_result w n u, s\<lparr>trace := trace s @ [NotifySend u n 5]\<rparr>)"
proof (cases "notify_send w n u")
  case (Inl f)
  then show ?thesis
    by (cases f)
      (auto simp: enviar_notificacao_def enviar_notificacao_via_def notify_result_def prog_simps
        subprocess_run_None exn_of_def)
next
  case (Inr c)
  then show ?thesis
    by (simp add: enviar_notificacao_def enviar_notificacao_via_def notify_result_def prog_simps
        subprocess_run_None)
qed

lemma notifications_append:
  "notifications (xs @ ys) = notifications xs @ notifications ys"
proof (induction xs)
  case Nil
  show ?case by simp
next
  case (Cons e xs)
  then show ?case by (cases e) simp_all
qed

lemma removed_append: "removed (xs @ ys) = removed xs @ removed ys"
proof (induction xs)
  case Nil
  show ?case by simp
next
  case (Cons e xs)
  then show ?case by (cases e) simp_all
qed

lemma attempted_append: "attempted (xs @ ys) = attempted xs @ attempted ys"
proof (induction xs)
  case Nil
  show ?case by simp
next
  case (Cons e xs)
  then show ?case by (cases e) simp_all
qed

lemma with_urgency_append: "with_urgency u (xs @ ys) = with_urgency u xs @ with_urgency u ys"
  by (simp add: with_urgency_def notifications_append)

lemma exit_status_exn: "\<forall>c. e \<noteq> SystemExit c \<Longrightarrow> exit_status (Inl e) = 1"
  by (cases e) (simp_all add: exit_status_def)

lemma exit_status_simps:
  "exit_status (Inr True) = 0" "exit_status (Inr False) = 1" "exit_status (Inl (SystemExit c)) = c"
  by (simp_all add: exit_status_def)

lemma notify_result_not_exit: "notify_result w n u \<noteq> Inl (SystemExit c)"
proof (cases "notify_send w n u")
  case (Inl f)
  then show ?thesis by (cases f) (simp_all add: notify_result_def exn_of_def)
next
  case (Inr c)
  then show ?thesis by (simp add: notify_result_def)
qed

lemma notify_result_cases:
  obtains "notify_result w n u = Inr ()"
  | e where "notify_result w n u = Inl e" "\<forall>c. e \<noteq> SystemExit c"
proof (cases "notify_result w n u")
  case (Inl e)
  then have "\<forall>c. e \<noteq> SystemExit c" using notify_result_not_exit [of w n u] by auto
  with Inl that show ?thesis by blast
next
  case (Inr u')
  with that show ?thesis by simp
qed

subsection \<open>The mount check\<close>

lemma verificar_hd_montado_missing:
  assumes "\<not> dest_exists w"
  shows "verificar_hd_montado w cfg None s =
     (case notify_result w DestinoNaoExiste Critical of Inl e \<Rightarrow> Inl e | Inr _ \<Rightarrow> Inr False,
      s\<lparr>trace := trace s @ [Enter VerificarHdMontado, Log ERROR DestinoInexistente,
                              NotifySend Critical DestinoNaoExiste 5]\<rparr>)"
  using assms
  by (cases rule: notify_result_cases [of w DestinoNaoExiste Critical])
    (simp_all add: verificar_hd_montado_def prog_simps emit_None logger_None
      subprocess_run_None enviar_notificacao_None)

lemma verificar_hd_montado_unmounted:
  assumes "dest_exists w" "mountpoint_run w = Inr c" "returncode c \<noteq> 0"
  shows "verificar_hd_montado w cfg None s =
     (case notify_result w HdNaoMontado Critical of Inl e \<Rightarrow> Inl e | Inr _ \<Rightarrow> Inr False,
      s\<lparr>trace := trace s @ [Enter VerificarHdMontado,
                              RunMountpoint [''mountpoint'', ''-q'', destino cfg],
                              Log ERROR NaoMontado, NotifySend Critical HdNaoMontado 5]\<rparr>)"
  using assms
  by (cases rule: notify_result_cases [of w HdNaoMontado Critical])
    (simp_all add: verificar_hd_montado_def prog_simps emit_None logger_None
      subprocess_run_None enviar_notificacao_None)

lemma verificar_hd_montado_mounted:
  assumes "dest_exists w" "mountpoint_run w = Inr c" "returncode c = 0"
  shows "verificar_hd_montado w cfg None s =
     (Inr True,
      s\<lparr>trace := trace s @ [Enter VerificarHdMontado,
                              RunMountpoint [''mountpoint'', ''-q'', destino cfg],
                              Log INFO Montado]\<rparr>)"
  using assms
  by (simp add: verificar_hd_montado_def prog_simps emit_None logger_None subprocess_run_None)

text \<open>
  C4. When the destination does not exist, or \<open>mountpoint -q\<close> answers a non-zero status,
  the run stops at the mount check: it does not succeed (it returns \<open>False\<close>, or the
  notification call raised), exactly one notification is sent and it is critical, neither
  the space check nor the transfer is entered and rsync is not run, and the process exits
  with status 1.
\<close>

theorem mount_failure_aborts:
  assumes "\<not> dest_exists w \<or> (\<exists>c. mountpoint_run w = Inr c \<and> returncode c \<noteq> 0)"
  shows "(case executar w cfg dry_run None initial of
            (r, s) \<Rightarrow>
              r \<noteq> Inr True
              \<and> (\<exists>n. notifications (trace s) = [(n, Critical)]
                     \<and> (notify_result w n Critical = Inr () \<longrightarrow> r = Inr False))
              \<and> Enter VerificarEspacoDisco \<notin> set (trace s)
              \<and> Enter ExecutarRsync \<notin> set (trace s)
              \<and> (\<forall>cmd. RunRsync cmd \<notin> set (trace s))
              \<and> exit_status r = 1)
         \<and> fst (main w cfg dry_run None) = 1"
proof -
  have run: "(case executar w cfg dry_run None initial of
            (r, s) \<Rightarrow>
              r \<noteq> Inr True
              \<and> (\<exists>n. notifications (trace s) = [(n, Critical)]
                     \<and> (notify_result w n Critical = Inr () \<longrightarrow> r = Inr False))
              \<and> Enter VerificarEspacoDisco \<notin> set (trace s)
              \<and> Enter ExecutarRsync \<notin> set (trace s)
              \<and> (\<forall>cmd. RunRsync cmd \<notin> set (trace s))
              \<and> exit_status r = 1)"
  proof (cases "dest_exists w")
    case False
    show ?thesis
      by (cases rule: notify_result_cases [of w DestinoNaoExiste Critical]; cases dry_run)
        (simp_all add: executar_def prog_simps logger_None initial_def exit_status_simps
          exit_status_exn notifications_append verificar_hd_montado_missing [OF False])
  next
    case True
    with assms obtain c where c: "mountpoint_run w = Inr c" "returncode c \<noteq> 0" by blast
    show ?thesis
      by (cases rule: notify_result_cases [of w HdNaoMontado Critical]; cases dry_run)
        (simp_all add: executar_def prog_simps logger_None initial_def exit_status_simps
          exit_status_exn notifications_append verificar_hd_montado_unmounted [OF True c])
  qed
  then have "fst (main w cfg dry_run None) = 1"
    by (auto simp: main_def split: prod.splits)
  with run show ?thesis by simp
qed

theorem mount_failure_aborts_witness:
  "\<not> dest_exists (world_ex\<lparr>dest_exists := False\<rparr>)
   \<and> executar (world_ex\<lparr>dest_exists := False\<rparr>) cfg_ex False None initial =
       (Inr False,
        initial\<lparr>trace := [Log INFO Separador, Log INFO BackupIniciado, Log INFO Separador,
           Log INFO (Etapa 1), Enter VerificarHdMontado, Log ERROR DestinoInexistente,
           NotifySend Critical DestinoNaoExiste 5]\<rparr>)
   \<and> fst (main (world_ex\<lparr>dest_exists := False\<rparr>) cfg_ex False None) = 1"
proof -
  have h: "\<not> dest_exists (world_ex\<lparr>dest_exists := False\<rparr>)" by simp
  have "executar (world_ex\<lparr>dest_exists := False\<rparr>) cfg_ex False None initial =
       (Inr False,
        initial\<lparr>trace := [Log INFO Separador, Log INFO BackupIniciado, Log INFO Separador,
           Log INFO (Etapa 1), Enter VerificarHdMontado, Log ERROR DestinoInexistente,
           NotifySend Critical DestinoNaoExiste 5]\<rparr>)"
    by (simp add: executar_def prog_simps logger_None emit_None enviar_notificacao_None
        verificar_hd_montado_def notify_result_def world_ex_def initial_def)
  with h mount_failure_aborts [of "world_ex\<lparr>dest_exists := False\<rparr>" cfg_ex False]
  show ?thesis by simp
qed


subsection \<open>Programs only append to the trace\<close>

lemma emitsI:
  assumes "\<And>s. \<exists>evs. trace (snd (p sg s)) = trace s @ evs \<and> list_all P evs"
  shows "emits sg P p"
  using assms by (simp add: emits_def)

lemma emitsD:
  assumes "emits sg P p"
  obtains evs where "trace (snd (p sg s)) = trace s @ evs" "list_all P evs"
  using assms by (auto simp: emits_def)

lemma emits_pure: "emits sg P (pure x)"
  by (simp add: emits_def pure_apply)

lemma emits_raise: "emits sg P (raise e)"
  by (simp add: emits_def raise_apply)

lemma emits_modify: "(\<And>s. trace (f s) = trace s) \<Longrightarrow> emits sg P (modify f)"
  by (simp add: emits_def modify_apply)

lemma emits_get_backup_dir: "emits sg P get_backup_dir"
  by (simp add: emits_def get_backup_dir_apply)

lemma emits_bnd:
  assumes "emits sg P m" "\<And>x. emits sg P (f x)"
  shows "emits sg P (bnd m f)"
proof (rule emitsI)
  fix s
  obtain r s1 where m: "m sg s = (r, s1)" by (cases "m sg s")
  from assms(1) obtain evs where evs: "trace s1 = trace s @ evs" "list_all P evs"
    using m by (auto elim: emitsD [where s = s])
  show "\<exists>evs. trace (snd (bnd m f sg s)) = trace s @ evs \<and> list_all P evs"
  proof (cases r)
    case (Inl e)
    with m evs show ?thesis by (auto simp: bnd_apply)
  next
    case (Inr x)
    from assms(2) [of x] obtain evs' where
      "trace (snd (f x sg s1)) = trace s1 @ evs'" "list_all P evs'"
      by (auto elim: emitsD [where s = s1])
    with Inr m evs show ?thesis
      by (intro exI [of _ "evs @ evs'"]) (simp add: bnd_apply)
  qed
qed

lemma emits_seq: "emits sg P m \<Longrightarrow> emits sg P n \<Longrightarrow> emits sg P (seq m n)"
  by (simp add: seq_def emits_bnd)

lemma emits_try_except:
  assumes "emits sg P m" "\<And>e k. h e = Some k \<Longrightarrow> emits sg P k"
  shows "emits sg P (try_except m h)"
proof (rule emitsI)
  fix s
  obtain r s1 where m: "m sg s = (r, s1)" by (cases "m sg s")
  from assms(1) obtain evs where evs: "trace s1 = trace s @ evs" "list_all P evs"
    using m by (auto elim: emitsD [where s = s])
  show "\<exists>evs. trace (snd (try_except m h sg s)) = trace s @ evs \<and> list_all P evs"
  proof (cases r)
    case (Inr x)
    with m evs show ?thesis by (auto simp: try_except_apply)
  next
    case (Inl e)
    show ?thesis
    proof (cases "h e")
      case None
      with Inl m evs show ?thesis by (auto simp: try_except_apply)
    next
      case (Some k)
      from assms(2) [OF Some] obtain evs' where
        "trace (snd (k sg s1)) = trace s1 @ evs'" "list_all P evs'"
        by (auto elim: emitsD [where s = s1])
      with Inl Some m evs show ?thesis
        by (intro exI [of _ "evs @ evs'"]) (simp add: try_except_apply)
    qed
  qed
qed

lemma emits_emit_raw: "P e \<Longrightarrow> emits sg P (emit_raw e)"
  by (simp add: emits_def emit_raw_apply)

lemma emits_notificacao_via:
  assumes "\<And>e. P e \<Longrightarrow> emits sg P (em e)" "P (NotifySend u n 5)"
  shows "emits sg P (enviar_notificacao_via em w n u)"
  unfolding enviar_notificacao_via_def subprocess_run_def
  by (intro emits_try_except emits_bnd emits_seq assms)
    (auto simp: emits_pure emits_raise split: sum.splits if_splits)

lemma emits_handler_sinal:
  assumes "list_all P (handler_events signum)"
  shows "emits sg P (handler_sinal w signum)"
  unfolding handler_sinal_def
  using assms
  by (intro emits_seq emits_notificacao_via emits_emit_raw emits_modify emits_raise)
    (simp_all add: handler_events_def)

lemma emits_emit:
  assumes "P e" "handler_ok sg P"
  shows "emits sg P (emit w e)"
proof (cases sg)
  case None
  with assms(1) show ?thesis by (simp add: emits_def emit_None)
next
  case (Some ks)
  obtain k signum where ks: "ks = (k, signum)" by (cases ks)
  from assms(2) Some ks have h: "list_all P (handler_events signum)"
    by (simp add: handler_ok_def)
  show ?thesis
  proof (rule emitsI)
    fix s
    obtain evs where "trace (snd (handler_sinal w signum None s)) = trace s @ evs"
      "list_all P evs"
      using emits_handler_sinal [OF h, of None w] by (auto elim: emitsD [where s = s])
    with assms(1) Some ks
    show "\<exists>evs. trace (snd (emit w e sg s)) = trace s @ evs \<and> list_all P evs"
      by (auto simp: emit_def emit_raw_apply)
  qed
qed

lemma emits_logger: "P (Log l m) \<Longrightarrow> handler_ok sg P \<Longrightarrow> emits sg P (logger w l m)"
  by (simp add: logger_def emits_emit)

lemma emits_enviar_notificacao:
  "P (NotifySend u n 5) \<Longrightarrow> handler_ok sg P \<Longrightarrow> emits sg P (enviar_notificacao w n u)"
  unfolding enviar_notificacao_def
  by (rule emits_notificacao_via) (simp_all add: emits_emit)

lemma emits_subprocess_run:
  "P ev \<Longrightarrow> handler_ok sg P \<Longrightarrow> emits sg P (subprocess_run (emit w) ev answer)"
  unfolding subprocess_run_def
  by (cases answer) (simp_all add: emits_seq emits_emit emits_raise emits_pure)

lemma emits_os_call:
  "P ev \<Longrightarrow> handler_ok sg P \<Longrightarrow> emits sg P (os_call (emit w) ev answer)"
  unfolding os_call_def
  by (cases answer) (simp_all add: emits_seq emits_emit emits_raise emits_pure)

lemma emits_if:
  "(c \<Longrightarrow> emits sg P p) \<Longrightarrow> (\<not> c \<Longrightarrow> emits sg P q) \<Longrightarrow> emits sg P (if c then p else q)"
  by simp

lemma emits_for_each:
  assumes "\<And>x. emits sg P (f x)"
  shows "emits sg P (for_each f xs)"
  by (induction xs) (simp_all add: emits_pure emits_seq assms)

lemma emits_trace_subset:
  assumes "emits sg P p"
  shows "set (trace s) \<subseteq> set (trace (snd (p sg s)))"
  using assms by (auto elim: emitsD [where s = s])

lemmas emits_intros = emits_pure emits_raise emits_bnd emits_seq emits_try_except emits_logger
  emits_enviar_notificacao emits_subprocess_run emits_os_call emits_emit emits_for_each
  emits_get_backup_dir

lemma emits_registrar_resumo:
  assumes "handler_ok sg P" "\<And>l m. P (Log l m)" "\<And>r. P (Enter r)" "P Rglob"
  shows "emits sg P (registrar_resumo w dry_run duracao)"
  unfolding registrar_resumo_def
  by (auto intro!: emits_intros emits_if simp: assms split: if_splits)

lemma emits_executar_rsync:
  assumes "handler_ok sg P" "\<And>l m. P (Log l m)" "\<And>r. P (Enter r)" "P Rglob"
    "\<And>n. P (NotifySend Critical n 5)"
    "P (RunRsync (rsync_cmd cfg dry_run (backup_dir_name w)))"
    "\<And>d. \<not> dry_run \<Longrightarrow> P (Mkdir d)"
  shows "emits sg P (executar_rsync w cfg dry_run)"
proof -
  have cmd: "P (RunRsync (rsync_cmd cfg True (backup_dir_name w)))" if dry_run
    using assms(6) that by simp
  have cmd': "P (RunRsync (rsync_cmd cfg False (backup_dir_name w)))" if "\<not> dry_run"
    using assms(6) that by simp
  show ?thesis
    unfolding executar_rsync_def Let_def
    by (auto intro!: emits_intros emits_modify emits_if emits_registrar_resumo
        simp: assms(1-5,7) cmd cmd' split: if_splits option.splits)
qed


subsection \<open>The steps without a signal\<close>

lemma verificar_espaco_disco_oserror:
  assumes "disk_usage w = Inl k"
  shows "verificar_espaco_disco w cfg None s =
     (case notify_result w (ErroEspaco (OSError k)) Critical of
        Inl e \<Rightarrow> Inl e | Inr _ \<Rightarrow> Inr False,
      s\<lparr>trace := trace s @ [Enter VerificarEspacoDisco, DiskUsage,
          Log ERROR (ErroVerificarEspaco (OSError k)),
          NotifySend Critical (ErroEspaco (OSError k)) 5]\<rparr>)"
  using assms
  by (cases rule: notify_result_cases [of w "ErroEspaco (OSError k)" Critical])
    (simp_all add: verificar_espaco_disco_def prog_simps emit_None logger_None os_call_None
      enviar_notificacao_None is_OSError_def)

lemma verificar_espaco_disco_zero:
  assumes "disk_usage w = Inr uso" "total_bytes uso = 0"
  shows "verificar_espaco_disco w cfg None s =
     (Inl ZeroDivisionError, s\<lparr>trace := trace s @ [Enter VerificarEspacoDisco, DiskUsage]\<rparr>)"
  using assms
  by (simp add: verificar_espaco_disco_def prog_simps emit_None os_call_None)

lemma verificar_espaco_disco_full:
  assumes "disk_usage w = Inr uso" "total_bytes uso \<noteq> 0" "livre_gb uso < espaco_minimo_gb cfg"
  shows "verificar_espaco_disco w cfg None s =
     (case notify_result w HdCheio Critical of Inl e \<Rightarrow> Inl e | Inr _ \<Rightarrow> Inr False,
      s\<lparr>trace := trace s @ [Enter VerificarEspacoDisco, DiskUsage, Log INFO (EspacoEmDisco uso),
          Log ERROR HdCheioMsg, NotifySend Critical HdCheio 5]\<rparr>)"
  using assms
  by (cases rule: notify_result_cases [of w HdCheio Critical])
    (simp_all add: verificar_espaco_disco_def prog_simps emit_None logger_None os_call_None
      enviar_notificacao_None)

lemma verificar_espaco_disco_low:
  assumes "disk_usage w = Inr uso" "total_bytes uso \<noteq> 0"
    "\<not> livre_gb uso < espaco_minimo_gb cfg" "livre_gb uso < espaco_minimo_gb cfg * 2"
  shows "verificar_espaco_disco w cfg None s =
     (case notify_result w EspacoBaixo Normal of Inl e \<Rightarrow> Inl e | Inr _ \<Rightarrow> Inr True,
      s\<lparr>trace := trace s @ [Enter VerificarEspacoDisco, DiskUsage, Log INFO (EspacoEmDisco uso),
          Log WARNING EspacoBaixoMsg, NotifySend Normal EspacoBaixo 5]\<rparr>)"
  using assms
  by (cases rule: notify_result_cases [of w EspacoBaixo Normal])
    (simp_all add: verificar_espaco_disco_def prog_simps emit_None logger_None os_call_None
      enviar_notificacao_None)

lemma verificar_espaco_disco_plenty:
  assumes "disk_usage w = Inr uso" "total_bytes uso \<noteq> 0"
    "\<not> livre_gb uso < espaco_minimo_gb cfg" "\<not> livre_gb uso < espaco_minimo_gb cfg * 2"
  shows "verificar_espaco_disco w cfg None s =
     (Inr True,
      s\<lparr>trace := trace s @ [Enter VerificarEspacoDisco, DiskUsage,
          Log INFO (EspacoEmDisco uso)]\<rparr>)"
  using assms
  by (simp add: verificar_espaco_disco_def prog_simps emit_None logger_None os_call_None)

lemma executar_split:
  "executar w cfg dry_run =
     seq (logger w INFO Separador)
    (seq (logger w INFO BackupIniciado)
    (seq (if dry_run then logger w INFO ModoDryRun else pure ())
    (seq (logger w INFO Separador)
    (seq (logger w INFO (Etapa 1))
    (bnd (verificar_hd_montado w cfg)
       (\<lambda>montado.
          if \<not> montado then pure False
          else seq (logger w INFO (Etapa 2))
              (bnd (verificar_espaco_disco w cfg)
                 (\<lambda>espaco. if \<not> espaco then pure False else etapas_3_4 w cfg dry_run))))))))"
  unfolding executar_def etapas_3_4_def etapa_4_def by (rule refl)

lemma executar_mounted:
  assumes "mount_ok w"
  shows "executar w cfg dry_run None s =
     (case verificar_espaco_disco w cfg None
             (s\<lparr>trace := trace s @ preamble dry_run
                  @ [Enter VerificarHdMontado,
                     RunMountpoint [''mountpoint'', ''-q'', destino cfg],
                     Log INFO Montado, Log INFO (Etapa 2)]\<rparr>) of
        (Inl e, s') \<Rightarrow> (Inl e, s')
      | (Inr espaco, s') \<Rightarrow>
          if \<not> espaco then (Inr False, s') else etapas_3_4 w cfg dry_run None s')"
proof -
  from assms obtain c where c: "dest_exists w" "mountpoint_run w = Inr c" "returncode c = 0"
    by (auto simp: mount_ok_def split: sum.splits)
  show ?thesis
    by (cases dry_run)
      (simp_all add: executar_split prog_simps logger_None preamble_def
        verificar_hd_montado_mounted [OF c] split: prod.split sum.split)
qed


lemma emits_rotacao_corpo:
  assumes "handler_ok sg P" "\<And>l m. P (Log l m)" "\<And>n ok. P (Rmtree n ok)"
  shows "emits sg P (rotacao_corpo w limite pasta removidos)"
  unfolding rotacao_corpo_def
  by (auto intro!: emits_intros simp: assms split: option.splits)

lemma emits_rotacao_loop:
  assumes "handler_ok sg P" "\<And>l m. P (Log l m)" "\<And>n ok. P (Rmtree n ok)"
  shows "emits sg P (rotacao_loop w limite pastas removidos)"
proof (induction pastas arbitrary: removidos)
  case Nil
  show ?case by (simp add: emits_pure)
next
  case (Cons pasta resto)
  show ?case
    by (auto intro!: emits_intros emits_rotacao_corpo Cons.IH simp: assms split: if_splits)
qed

lemma emits_rotacionar_backups:
  assumes "handler_ok sg P" "\<And>l m. P (Log l m)" "\<And>r. P (Enter r)"
    "\<And>n ok. \<not> dry_run \<Longrightarrow> P (Rmtree n ok)" "\<not> dry_run \<Longrightarrow> P IterDir"
  shows "emits sg P (rotacionar_backups w cfg dry_run)"
proof (cases dry_run)
  case True
  then show ?thesis
    unfolding rotacionar_backups_def by (auto intro!: emits_intros simp: assms)
next
  case False
  then show ?thesis
    unfolding rotacionar_backups_def
    by (auto intro!: emits_intros emits_rotacao_loop simp: assms split: option.splits)
qed

lemma emits_etapas_3_4:
  assumes "handler_ok sg P" "\<And>l m. P (Log l m)" "\<And>r. P (Enter r)" "P Rglob"
    "\<And>n. P (NotifySend Critical n 5)"
    "P (RunRsync (rsync_cmd cfg dry_run (backup_dir_name w)))"
    "\<And>d. \<not> dry_run \<Longrightarrow> P (Mkdir d)"
    "\<And>n ok. \<not> dry_run \<Longrightarrow> P (Rmtree n ok)" "\<not> dry_run \<Longrightarrow> P IterDir"
    "\<not> dry_run \<Longrightarrow> P (NotifySend Low BackupConcluido 5)"
  shows "emits sg P (etapas_3_4 w cfg dry_run)"
proof -
  have rs: "emits sg P (executar_rsync w cfg dry_run)"
    by (rule emits_executar_rsync) (simp_all add: assms)
  have rot: "emits sg P (rotacionar_backups w cfg dry_run)"
    by (rule emits_rotacionar_backups) (simp_all add: assms)
  show ?thesis
    unfolding etapas_3_4_def etapa_4_def
    by (intro emits_intros emits_if rs rot) (simp_all add: assms)
qed

lemma emits_verificar_hd_montado:
  assumes "handler_ok sg P" "\<And>l m. P (Log l m)" "\<And>r. P (Enter r)"
    "\<And>n. P (NotifySend Critical n 5)" "\<And>cmd. P (RunMountpoint cmd)"
  shows "emits sg P (verificar_hd_montado w cfg)"
  unfolding verificar_hd_montado_def
  by (auto intro!: emits_intros simp: assms)

lemma emits_verificar_espaco_disco:
  assumes "handler_ok sg P" "\<And>l m. P (Log l m)" "\<And>r. P (Enter r)"
    "\<And>n. P (NotifySend Critical n 5)" "P DiskUsage" "P (NotifySend Normal EspacoBaixo 5)"
  shows "emits sg P (verificar_espaco_disco w cfg)"
  unfolding verificar_espaco_disco_def
  by (auto intro!: emits_intros simp: assms split: option.splits if_splits)

lemma emits_executar:
  assumes "handler_ok sg P" "\<And>l m. P (Log l m)" "\<And>r. P (Enter r)" "P Rglob"
    "\<And>n. P (NotifySend Critical n 5)" "\<And>cmd. P (RunMountpoint cmd)"
    "P DiskUsage" "P (NotifySend Normal EspacoBaixo 5)"
    "P (RunRsync (rsync_cmd cfg dry_run (backup_dir_name w)))"
    "\<And>d. \<not> dry_run \<Longrightarrow> P (Mkdir d)"
    "\<And>n ok. \<not> dry_run \<Longrightarrow> P (Rmtree n ok)" "\<not> dry_run \<Longrightarrow> P IterDir"
    "\<not> dry_run \<Longrightarrow> P (NotifySend Low BackupConcluido 5)"
  shows "emits sg P (executar w cfg dry_run)"
proof -
  have e34: "emits sg P (etapas_3_4 w cfg dry_run)"
    by (rule emits_etapas_3_4) (simp_all add: assms)
  have hd: "emits sg P (verificar_hd_montado w cfg)"
    by (rule emits_verificar_hd_montado) (simp_all add: assms)
  have esp: "emits sg P (verificar_espaco_disco w cfg)"
    by (rule emits_verificar_espaco_disco) (simp_all add: assms)
  show ?thesis
    unfolding executar_split
    by (intro emits_intros emits_if e34 hd esp) (simp_all add: assms)
qed

subsection \<open>Dry run\<close>

lemma rotacionar_backups_dry:
  "rotacionar_backups w cfg True None s =
     (Inr PyNone,
      s\<lparr>trace := trace s @ [Enter RotacionarBackups, Log INFO DryRunPulandoRotacao]\<rparr>)"
  by (simp add: rotacionar_backups_def prog_simps emit_None logger_None)

text \<open>
  C2 (amended). In a dry run, for every configuration and every answer of the outside world,
  and whether or not a signal arrives, no effect of the run mutates the destination: no
  directory is created, nothing is removed, rsync is only run with \<open>--dry-run\<close>, and the
  destination is not even listed.  The rotation routine, when it is called, only logs that
  the rotation is skipped and returns.
\<close>

theorem dry_run_mutates_nothing:
  "(\<forall>e \<in> set (trace (snd (executar w cfg True sg initial))). \<not> mutates e \<and> e \<noteq> IterDir)
   \<and> rotacionar_backups w cfg True None s =
       (Inr PyNone,
        s\<lparr>trace := trace s @ [Enter RotacionarBackups, Log INFO DryRunPulandoRotacao]\<rparr>)"
proof -
  have "emits sg (\<lambda>e. \<not> mutates e \<and> e \<noteq> IterDir) (executar w cfg True)"
    by (rule emits_executar)
      (simp_all add: handler_ok_def handler_events_def rsync_cmd_def)
  then obtain evs where
    "trace (snd (executar w cfg True sg initial)) = trace initial @ evs"
    "list_all (\<lambda>e. \<not> mutates e \<and> e \<noteq> IterDir) evs"
    by (rule emitsD)
  then show ?thesis
    by (simp add: initial_def list_all_iff rotacionar_backups_dry)
qed


subsection \<open>Evaluating concrete runs\<close>

lemmas run_simps = prog_simps emit_None logger_None subprocess_run_None os_call_None
  enviar_notificacao_None executar_def verificar_hd_montado_def verificar_espaco_disco_def
  executar_rsync_def registrar_resumo_def rotacionar_backups_def rotacao_corpo_def
  livre_gb_def notify_result_def is_OSError_def is_Exception_def exn_of_def Let_def
  backup_dir_name_def rsync_cmd_def path_child_def rsync_lines_def

lemmas world_simps = world_ex_def cfg_ex_def done_ok_def listing_ex_def initial_def

lemma dry_run_example:
  "executar world_ex cfg_ex True None initial =
     (Inr True,
      \<lparr>interrompido = False,
       backup_dir = Some (''backup_'' @ strftime_ymd (now_backup world_ex)),
       trace =
         [Log INFO Separador, Log INFO BackupIniciado, Log INFO ModoDryRun, Log INFO Separador,
          Log INFO (Etapa 1), Enter VerificarHdMontado,
          RunMountpoint [''mountpoint'', ''-q'', ''/mnt/hd''], Log INFO Montado,
          Log INFO (Etapa 2), Enter VerificarEspacoDisco, DiskUsage,
          Log INFO (EspacoEmDisco \<lparr>total_bytes = 536870912000, used_bytes = 107374182400,
                                     free_bytes = 429496729600\<rparr>),
          Log INFO (Etapa 3), Enter ExecutarRsync, Log INFO DryRunAtivado,
          Log INFO IniciandoRsync,
          Log DEBUG (Comando (rsync_cmd cfg_ex True (backup_dir_name world_ex))),
          RunRsync (rsync_cmd cfg_ex True (backup_dir_name world_ex)),
          Log INFO (BackupSucesso (formatar_duracao 61000000)), Enter RegistrarResumo,
          Log INFO (Etapa 4), Enter RotacionarBackups, Log INFO DryRunPulandoRotacao,
          Log INFO Separador, Log INFO (BackupFinalizado True), Log INFO Separador]\<rparr>)"
  by (simp add: run_simps world_simps)

theorem dry_run_mutates_nothing_witness:
  "list_all (\<lambda>e. \<not> mutates e \<and> e \<noteq> IterDir)
     (trace (snd (executar world_ex cfg_ex True None initial)))
   \<and> fst (executar world_ex cfg_ex True None initial) = Inr True
   \<and> removed (trace (snd (executar world_ex cfg_ex True None initial))) = []"
  using dry_run_mutates_nothing [of world_ex cfg_ex None initial]
  by (simp add: list_all_iff dry_run_example)

text \<open>
  The rotation routine is called in a dry run whose transfer succeeds: its entry is in the
  trace of the example run.
\<close>

theorem dry_run_calls_rotation:
  "Enter RotacionarBackups \<in> set (trace (snd (executar world_ex cfg_ex True None initial)))"
  by (simp add: dry_run_example)


subsection \<open>The transfer and the rotation without a signal\<close>

lemma for_each_logger_None:
  "for_each (\<lambda>x. logger w l (g x)) xs None s =
     (Inr (), s\<lparr>trace := trace s @ map (\<lambda>x. Log l (g x)) xs\<rparr>)"
  by (induction xs arbitrary: s) (simp_all add: prog_simps logger_None)

lemma registrar_resumo_None:
  assumes "backup_dir s \<noteq> None"
  shows "registrar_resumo w dry_run duracao None s =
     (Inr (), s\<lparr>trace := trace s @ resumo_events w dry_run duracao\<rparr>)"
  using assms
  by (cases "rglob_sizes w")
    (auto simp: registrar_resumo_def resumo_events_def prog_simps emit_None logger_None
      os_call_None is_OSError_def)

lemma executar_rsync_mkdir_fails:
  assumes "\<not> dry_run" "mkdir_result w = Some k"
  shows "executar_rsync w cfg dry_run None s =
     (Inl (OSError k),
      s\<lparr>backup_dir := Some (backup_dir_name w),
        trace := trace s @ [Enter ExecutarRsync, Mkdir (backup_dir_name w)]\<rparr>)"
  using assms
  by (simp add: executar_rsync_def Let_def prog_simps emit_None os_call_None)

lemma executar_rsync_raises:
  assumes "dry_run \<or> mkdir_result w = None"
    "rsync_run w (rsync_cmd cfg dry_run (backup_dir_name w)) = Inl f"
  shows "executar_rsync w cfg dry_run None s =
     (case notify_result w (ErroRsync (exn_of f)) Critical of
        Inl e \<Rightarrow> Inl e | Inr _ \<Rightarrow> Inr False,
      s\<lparr>backup_dir := Some (backup_dir_name w),
        trace := trace s @ rsync_start_events w cfg dry_run
          @ [Log ERROR (ErroExecutarRsync (exn_of f)),
             NotifySend Critical (ErroRsync (exn_of f)) 5]\<rparr>)"
proof -
  have ex: "is_Exception (exn_of f)"
    by (cases f) (simp_all add: is_Exception_def exn_of_def)
  show ?thesis
    using assms ex
    by (cases rule: notify_result_cases [of w "ErroRsync (exn_of f)" Critical]; cases dry_run)
      (simp_all add: executar_rsync_def Let_def prog_simps emit_None os_call_None logger_None
        subprocess_run_None enviar_notificacao_None rsync_start_events_def)
qed

lemma executar_rsync_nonzero:
  assumes "dry_run \<or> mkdir_result w = None"
    "rsync_run w (rsync_cmd cfg dry_run (backup_dir_name w)) = Inr c" "returncode c \<noteq> 0"
  shows "executar_rsync w cfg dry_run None s =
     (case notify_result w (RsyncFalhou (returncode c)) Critical of
        Inl e \<Rightarrow> Inl e | Inr _ \<Rightarrow> Inr False,
      s\<lparr>backup_dir := Some (backup_dir_name w),
        trace := trace s @ rsync_start_events w cfg dry_run @ rsync_lines c
          @ [Log ERROR (RsyncFalhouMsg (returncode c)
                (if stderr c \<noteq> [] then py_strip (stderr c) else ''Erro desconhecido'')),
             NotifySend Critical (RsyncFalhou (returncode c)) 5]\<rparr>)"
  using assms
  by (cases rule: notify_result_cases [of w "RsyncFalhou (returncode c)" Critical];
      cases dry_run)
    (simp_all add: executar_rsync_def Let_def prog_simps emit_None os_call_None logger_None
      subprocess_run_None enviar_notificacao_None rsync_start_events_def rsync_lines_def
      for_each_logger_None)

lemma executar_rsync_zero:
  assumes "dry_run \<or> mkdir_result w = None"
    "rsync_run w (rsync_cmd cfg dry_run (backup_dir_name w)) = Inr c" "returncode c = 0"
  shows "executar_rsync w cfg dry_run None s =
     (Inr True,
      s\<lparr>backup_dir := Some (backup_dir_name w),
        trace := trace s @ rsync_start_events w cfg dry_run @ rsync_lines c
          @ [Log INFO (BackupSucesso (formatar_duracao (rsync_duration w)))]
          @ resumo_events w dry_run (rsync_duration w)\<rparr>)"
  using assms
  by (cases dry_run)
    (simp_all add: executar_rsync_def Let_def prog_simps emit_None os_call_None logger_None
      subprocess_run_None rsync_start_events_def rsync_lines_def
      for_each_logger_None registrar_resumo_None)

lemma rotacao_corpo_None:
  "try_except (rotacao_corpo w limite pasta n)
     (\<lambda>e. if e = ValueError then Some (pure n)
          else if is_OSError e
          then Some (seq (logger w ERROR (ErroRemover (name pasta) e)) (pure n))
          else None) None s =
   (if is_dir pasta \<and> startswith (name pasta) ''backup_''
    then (Inr (if candidate limite pasta \<and> rmtree pasta = None then n + 1 else n),
          s\<lparr>trace := trace s @ rotacao_events limite [pasta]\<rparr>)
    else try_except (rotacao_corpo w limite pasta n)
     (\<lambda>e. if e = ValueError then Some (pure n)
          else if is_OSError e
          then Some (seq (logger w ERROR (ErroRemover (name pasta) e)) (pure n))
          else None) None s)"
  by (cases "strptime_ymd (py_replace (name pasta) ''backup_'' [])"; cases "rmtree pasta")
    (auto simp: rotacao_corpo_def candidate_def prog_simps logger_None os_call_None
      is_OSError_def)

lemma rotacao_events_Cons:
  "rotacao_events limite (pasta # resto) =
     rotacao_events limite [pasta] @ rotacao_events limite resto"
  by simp

lemma rotacao_events_not_candidate:
  "\<not> candidate limite pasta \<Longrightarrow> rotacao_events limite [pasta] = []"
  by simp

lemma rotacao_loop_None:
  "rotacao_loop w limite pastas n None s =
     (Inr (n + length (filter (\<lambda>p. candidate limite p \<and> rmtree p = None) pastas)),
      s\<lparr>trace := trace s @ rotacao_events limite pastas\<rparr>)"
proof (induction pastas arbitrary: n s)
  case Nil
  show ?case by (simp add: pure_apply)
next
  case (Cons pasta resto)
  show ?case
  proof (cases "is_dir pasta \<and> startswith (name pasta) ''backup_''")
    case False
    then have "\<not> candidate limite pasta" by (auto simp: candidate_def)
    with False show ?thesis by (auto simp: Cons.IH)
  next
    case True
    then show ?thesis
      by (subst rotacao_events_Cons)
        (simp add: bnd_apply rotacao_corpo_None Cons.IH del: rotacao_events.simps)
  qed
qed

lemma rotacionar_backups_overflow:
  assumes "minus_days (now_rotation w) (retencao_dias cfg) = None"
  shows "rotacionar_backups w cfg False None s =
     (Inl OverflowError, s\<lparr>trace := trace s @ [Enter RotacionarBackups]\<rparr>)"
  using assms by (simp add: rotacionar_backups_def prog_simps emit_None)

lemma rotacionar_backups_iterdir_fails:
  assumes "minus_days (now_rotation w) (retencao_dias cfg) = Some limite" "iterdir w = Inl k"
  shows "rotacionar_backups w cfg False None s =
     (Inl (OSError k),
      s\<lparr>trace := trace s @ [Enter RotacionarBackups,
          Log INFO (VerificandoAntigos (retencao_dias cfg) limite), IterDir]\<rparr>)"
  using assms
  by (simp add: rotacionar_backups_def prog_simps emit_None logger_None os_call_None)

lemma rotacionar_backups_None:
  assumes "minus_days (now_rotation w) (retencao_dias cfg) = Some limite"
    "iterdir w = Inr pastas"
  shows "rotacionar_backups w cfg False None s =
     (Inr PyNone,
      s\<lparr>trace := trace s @ [Enter RotacionarBackups,
          Log INFO (VerificandoAntigos (retencao_dias cfg) limite), IterDir]
          @ rotacao_events limite (sort_key name pastas)
          @ [Log INFO
               (if length (filter (\<lambda>p. candidate limite p \<and> rmtree p = None)
                             (sort_key name pastas)) > 0
                then Removidos (length (filter (\<lambda>p. candidate limite p \<and> rmtree p = None)
                                          (sort_key name pastas)))
                else NenhumRemovido)]\<rparr>)"
  using assms
  by (simp add: rotacionar_backups_def prog_simps emit_None logger_None os_call_None
      rotacao_loop_None)


subsection \<open>The space check\<close>

lemma livre_gb_nonneg: "0 \<le> livre_gb uso"
  by (simp add: livre_gb_def)

lemma trace_superset_bnd:
  assumes "\<And>x. emits sg P (f x)"
  shows "set (trace (snd (m sg s))) \<subseteq> set (trace (snd (bnd m f sg s)))"
proof (cases "m sg s")
  case (Pair r s1)
  show ?thesis
  proof (cases r)
    case (Inl e)
    with Pair show ?thesis by (simp add: bnd_apply)
  next
    case (Inr x)
    with Pair emits_trace_subset [OF assms, of s1 x] show ?thesis by (simp add: bnd_apply)
  qed
qed

lemma executar_rsync_enters:
  "Enter ExecutarRsync \<in> set (trace (snd (executar_rsync w cfg dry_run None s)))"
proof (cases "dry_run \<or> mkdir_result w = None")
  case False
  then show ?thesis by (auto simp: executar_rsync_mkdir_fails)
next
  case True
  show ?thesis
  proof (cases "rsync_run w (rsync_cmd cfg dry_run (backup_dir_name w))")
    case (Inl f)
    show ?thesis
      by (simp add: executar_rsync_raises [OF True Inl] rsync_start_events_def)
  next
    case (Inr c)
    show ?thesis
    proof (cases "returncode c = 0")
      case True
      then show ?thesis
        by (simp add: executar_rsync_zero [OF \<open>dry_run \<or> mkdir_result w = None\<close> Inr]
            rsync_start_events_def)
    next
      case False
      then show ?thesis
        by (simp add: executar_rsync_nonzero [OF \<open>dry_run \<or> mkdir_result w = None\<close> Inr]
            rsync_start_events_def)
    qed
  qed
qed

lemma etapas_3_4_enters:
  "Enter ExecutarRsync \<in> set (trace (snd (etapas_3_4 w cfg dry_run None s)))"
proof -
  have rot: "emits None (\<lambda>_. True) (rotacionar_backups w cfg dry_run)"
    by (rule emits_rotacionar_backups) (simp_all add: handler_ok_def)
  have "\<And>sucesso. emits None (\<lambda>_. True)
      (seq (etapa_4 w cfg dry_run sucesso)
        (seq (logger w INFO Separador)
          (seq (logger w INFO (BackupFinalizado sucesso))
            (seq (logger w INFO Separador) (pure sucesso)))))"
    unfolding etapa_4_def
    by (intro emits_intros emits_if rot) (simp_all add: handler_ok_def)
  then have "set (trace (snd (executar_rsync w cfg dry_run None
        (s\<lparr>trace := trace s @ [Log INFO (Etapa 3)]\<rparr>))))
      \<subseteq> set (trace (snd (bnd (executar_rsync w cfg dry_run)
          (\<lambda>sucesso. seq (etapa_4 w cfg dry_run sucesso)
            (seq (logger w INFO Separador)
              (seq (logger w INFO (BackupFinalizado sucesso))
                (seq (logger w INFO Separador) (pure sucesso)))))
          None (s\<lparr>trace := trace s @ [Log INFO (Etapa 3)]\<rparr>))))"
    by (rule trace_superset_bnd)
  then have "set (trace (snd (executar_rsync w cfg dry_run None
        (s\<lparr>trace := trace s @ [Log INFO (Etapa 3)]\<rparr>))))
      \<subseteq> set (trace (snd (etapas_3_4 w cfg dry_run None s)))"
    unfolding etapas_3_4_def by (simp add: seq_apply logger_None)
  with executar_rsync_enters show ?thesis by blast
qed

lemma etapas_3_4_no_normal:
  "with_urgency Normal (trace (snd (etapas_3_4 w cfg dry_run None s)))
     = with_urgency Normal (trace s)"
proof -
  have "emits None (\<lambda>e. \<forall>n t. e \<noteq> NotifySend Normal n t) (etapas_3_4 w cfg dry_run)"
    by (rule emits_etapas_3_4) (simp_all add: handler_ok_def)
  then obtain evs where evs: "trace (snd (etapas_3_4 w cfg dry_run None s)) = trace s @ evs"
    "list_all (\<lambda>e. \<forall>n t. e \<noteq> NotifySend Normal n t) evs"
    by (rule emitsD)
  have "list_all (\<lambda>e. \<forall>n t. e \<noteq> NotifySend Normal n t) es \<Longrightarrow> with_urgency Normal es = []"
    for es
  proof (induction es)
    case Nil
    show ?case by (simp add: with_urgency_def)
  next
    case (Cons e es)
    then show ?case by (cases e) (auto simp: with_urgency_def)
  qed
  with evs show ?thesis by (simp add: with_urgency_append)
qed

text \<open>
  C3 (amended). In a run that reaches the space check and receives no signal:
  a failure of the disk-usage query is a hard failure; when the query answers
  with a non-zero total, free space below the minimum is a hard failure, free space of at
  least the minimum but below twice the minimum sends exactly one normal-urgency
  notification and the run goes on to the transfer provided the notification call itself
  does not raise, and free space of at least twice the minimum sends no normal-urgency
  notification and the run goes on to the transfer.  (Nothing is stated for a total of
  zero bytes.)
\<close>

theorem space_check_bands:
  assumes "mount_ok w"
  shows "(\<forall>k. disk_usage w = Inl k \<longrightarrow>
            aborted_before_transfer w (ErroEspaco (OSError k))
              (executar w cfg dry_run None initial))
       \<and> (\<forall>uso. disk_usage w = Inr uso \<and> total_bytes uso \<noteq> 0 \<longrightarrow>
            (livre_gb uso < espaco_minimo_gb cfg \<longrightarrow>
               aborted_before_transfer w HdCheio (executar w cfg dry_run None initial))
          \<and> (espaco_minimo_gb cfg \<le> livre_gb uso \<and> livre_gb uso < espaco_minimo_gb cfg * 2 \<longrightarrow>
               with_urgency Normal (trace (snd (executar w cfg dry_run None initial)))
                 = [(EspacoBaixo, Normal)]
               \<and> (notify_result w EspacoBaixo Normal = Inr () \<longrightarrow>
                    Enter ExecutarRsync
                      \<in> set (trace (snd (executar w cfg dry_run None initial)))))
          \<and> (espaco_minimo_gb cfg * 2 \<le> livre_gb uso \<longrightarrow>
               with_urgency Normal (trace (snd (executar w cfg dry_run None initial))) = []
               \<and> Enter ExecutarRsync
                   \<in> set (trace (snd (executar w cfg dry_run None initial)))))"
proof (intro conjI allI impI)
  fix k
  assume k: "disk_usage w = Inl k"
  show "aborted_before_transfer w (ErroEspaco (OSError k)) (executar w cfg dry_run None initial)"
    by (cases rule: notify_result_cases [of w "ErroEspaco (OSError k)" Critical])
      (simp_all add: aborted_before_transfer_def executar_mounted [OF assms]
        verificar_espaco_disco_oserror [OF k] preamble_def initial_def notifications_append
        exit_status_simps exit_status_exn)
next
  fix uso
  assume "disk_usage w = Inr uso \<and> total_bytes uso \<noteq> 0"
  then have u: "disk_usage w = Inr uso" "total_bytes uso \<noteq> 0" by simp_all
  {
    assume full: "livre_gb uso < espaco_minimo_gb cfg"
    show "aborted_before_transfer w HdCheio (executar w cfg dry_run None initial)"
      by (cases rule: notify_result_cases [of w HdCheio Critical])
        (simp_all add: aborted_before_transfer_def executar_mounted [OF assms]
          verificar_espaco_disco_full [OF u full] preamble_def initial_def notifications_append
          exit_status_simps exit_status_exn)
  }
  {
    assume "espaco_minimo_gb cfg \<le> livre_gb uso \<and> livre_gb uso < espaco_minimo_gb cfg * 2"
    then have low: "\<not> livre_gb uso < espaco_minimo_gb cfg"
      "livre_gb uso < espaco_minimo_gb cfg * 2" by simp_all
    note v = verificar_espaco_disco_low [OF u low]
    show "with_urgency Normal (trace (snd (executar w cfg dry_run None initial)))
        = [(EspacoBaixo, Normal)]"
      by (cases rule: notify_result_cases [of w EspacoBaixo Normal])
        (simp_all add: executar_mounted [OF assms] v etapas_3_4_no_normal preamble_def
          initial_def, (simp_all add: with_urgency_def)?)
    {
      assume "notify_result w EspacoBaixo Normal = Inr ()"
      then show "Enter ExecutarRsync \<in> set (trace (snd (executar w cfg dry_run None initial)))"
        by (simp add: executar_mounted [OF assms] v etapas_3_4_enters)
    }
  }
  {
    assume two: "espaco_minimo_gb cfg * 2 \<le> livre_gb uso"
    have plenty: "\<not> livre_gb uso < espaco_minimo_gb cfg"
      "\<not> livre_gb uso < espaco_minimo_gb cfg * 2"
      using two livre_gb_nonneg [of uso] by linarith+
    note v = verificar_espaco_disco_plenty [OF u plenty]
    show "with_urgency Normal (trace (snd (executar w cfg dry_run None initial))) = []"
      by (simp add: executar_mounted [OF assms] v etapas_3_4_no_normal preamble_def
          initial_def, (simp add: with_urgency_def)?)
    show "Enter ExecutarRsync \<in> set (trace (snd (executar w cfg dry_run None initial)))"
      by (simp add: executar_mounted [OF assms] v etapas_3_4_enters)
  }
qed


lemmas example_simps = world_simps uso_low_def uso_full_def uso_zero_def no_permission_def

theorem space_check_bands_witness:
  "mount_ok world_ex
   \<and> aborted_before_transfer (world_ex\<lparr>disk_usage := Inl OtherOS\<rparr>) (ErroEspaco (OSError OtherOS))
       (executar (world_ex\<lparr>disk_usage := Inl OtherOS\<rparr>) cfg_ex False None initial)
   \<and> aborted_before_transfer (world_ex\<lparr>disk_usage := Inr uso_full\<rparr>) HdCheio
       (executar (world_ex\<lparr>disk_usage := Inr uso_full\<rparr>) cfg_ex False None initial)
   \<and> with_urgency Normal
       (trace (snd (executar (world_ex\<lparr>disk_usage := Inr uso_low\<rparr>) cfg_ex False None initial)))
       = [(EspacoBaixo, Normal)]
   \<and> Enter ExecutarRsync
       \<in> set (trace (snd (executar (world_ex\<lparr>disk_usage := Inr uso_low\<rparr>) cfg_ex False None
                             initial)))
   \<and> with_urgency Normal (trace (snd (executar world_ex cfg_ex False None initial))) = []
   \<and> Enter ExecutarRsync \<in> set (trace (snd (executar world_ex cfg_ex False None initial)))"
proof -
  have m: "mount_ok world_ex" "mount_ok (world_ex\<lparr>disk_usage := d\<rparr>)" for d
    by (simp_all add: mount_ok_def world_ex_def done_ok_def)
  have l: "livre_gb uso_low = 7" "livre_gb uso_full = 1"
    "livre_gb \<lparr>total_bytes = 536870912000, used_bytes = 107374182400,
                free_bytes = 429496729600\<rparr> = 400"
    by (simp_all add: livre_gb_def uso_low_def uso_full_def)
  have n: "notify_result (world_ex\<lparr>disk_usage := d\<rparr>) x u = Inr ()" for d x u
    by (simp add: notify_result_def world_ex_def)
  show ?thesis
    using space_check_bands [OF m(2), of "Inl OtherOS" cfg_ex False]
      space_check_bands [OF m(2), of "Inr uso_full" cfg_ex False]
      space_check_bands [OF m(2), of "Inr uso_low" cfg_ex False]
      space_check_bands [OF m(1), of cfg_ex False]
    by (simp add: m l n cfg_ex_def) (simp add: world_ex_def uso_low_def uso_full_def l)
qed

text \<open>
  With free space between the minimum and twice the minimum, the run does not go on to the
  transfer when the notification call raises an exception that \<open>enviar_notificacao\<close> does
  not catch.
\<close>

theorem low_space_warning_can_abort:
  "espaco_minimo_gb cfg_ex \<le> livre_gb uso_low
   \<and> livre_gb uso_low < espaco_minimo_gb cfg_ex * 2
   \<and> fst (executar (world_ex\<lparr>disk_usage := Inr uso_low, notify_send := no_permission\<rparr>)
            cfg_ex False None initial) = Inl (OSError PermissionDenied)
   \<and> Enter ExecutarRsync
       \<notin> set (trace (snd (executar
                  (world_ex\<lparr>disk_usage := Inr uso_low, notify_send := no_permission\<rparr>)
                  cfg_ex False None initial)))"
  by (simp add: run_simps example_simps)

text \<open>
  When the filesystem reports a total of zero bytes, the space check raises
  \<open>ZeroDivisionError\<close> before anything is logged or notified.
\<close>

lemma zero_total_raises:
  assumes "mount_ok w" "disk_usage w = Inr uso" "total_bytes uso = 0"
  shows "fst (executar w cfg dry_run None initial) = Inl ZeroDivisionError
         \<and> notifications (trace (snd (executar w cfg dry_run None initial))) = []"
  by (simp add: executar_mounted [OF assms(1)] verificar_espaco_disco_zero [OF assms(2,3)]
      preamble_def initial_def)

lemma zero_total_example:
  "fst (executar (world_ex\<lparr>disk_usage := Inr uso_zero\<rparr>) cfg_ex False None initial)
     = Inl ZeroDivisionError
   \<and> notifications
       (trace (snd (executar (world_ex\<lparr>disk_usage := Inr uso_zero\<rparr>) cfg_ex False None initial)))
     = []"
  by (simp add: run_simps example_simps)


subsection \<open>The outcome of the transfer\<close>

lemma notifications_map_Log [simp]: "notifications (map (\<lambda>x. Log l (g x)) xs) = []"
  by (induction xs) simp_all

lemma attempted_map_Log [simp]: "attempted (map (\<lambda>x. Log l (g x)) xs) = []"
  by (induction xs) simp_all

lemma notifications_rsync_lines [simp]: "notifications (rsync_lines c) = []"
  by (simp add: rsync_lines_def)

lemma attempted_rsync_lines [simp]: "attempted (rsync_lines c) = []"
  by (simp add: rsync_lines_def)

lemma set_rsync_lines: "e \<in> set (rsync_lines c) \<Longrightarrow> \<exists>linha. e = Log DEBUG (RsyncLinha linha)"
  by (auto simp: rsync_lines_def split: if_splits)

lemma rsync_lines_free [simp]:
  "Enter r \<notin> set (rsync_lines c)" "IterDir \<notin> set (rsync_lines c)"
  by (auto dest: set_rsync_lines)

lemma notifications_resumo_events [simp]: "notifications (resumo_events w dry_run d) = []"
  by (simp add: resumo_events_def split: sum.splits)

lemma attempted_resumo_events [simp]: "attempted (resumo_events w dry_run d) = []"
  by (simp add: resumo_events_def split: sum.splits)

lemma resumo_events_free [simp]:
  "Enter RotacionarBackups \<notin> set (resumo_events w dry_run d)"
  "IterDir \<notin> set (resumo_events w dry_run d)"
  by (simp_all add: resumo_events_def split: sum.splits)

lemma notifications_rsync_start_events [simp]:
  "notifications (rsync_start_events w cfg dry_run) = []"
  by (simp add: rsync_start_events_def)

lemma attempted_rsync_start_events [simp]:
  "attempted (rsync_start_events w cfg dry_run) = []"
  by (simp add: rsync_start_events_def)

lemma rsync_start_events_free [simp]:
  "Enter RotacionarBackups \<notin> set (rsync_start_events w cfg dry_run)"
  "IterDir \<notin> set (rsync_start_events w cfg dry_run)"
  by (simp_all add: rsync_start_events_def)

lemma notifications_rotacao_events [simp]: "notifications (rotacao_events limite pastas) = []"
  by (induction pastas) (simp_all add: notifications_append split: option.splits)

lemma with_urgency_simps [simp]:
  "with_urgency u [] = []"
  "with_urgency u (Log l m # es) = with_urgency u es"
  "with_urgency u (Enter r # es) = with_urgency u es"
  "with_urgency u (RunMountpoint cmd # es) = with_urgency u es"
  "with_urgency u (DiskUsage # es) = with_urgency u es"
  "with_urgency u (Mkdir d # es) = with_urgency u es"
  "with_urgency u (RunRsync cmd # es) = with_urgency u es"
  "with_urgency u (Rglob # es) = with_urgency u es"
  "with_urgency u (IterDir # es) = with_urgency u es"
  "with_urgency u (Rmtree nome ok # es) = with_urgency u es"
  "with_urgency u (NotifySend u' n t # es) =
     (if u' = u then (n, u') # with_urgency u es else with_urgency u es)"
  by (simp_all add: with_urgency_def)

lemma with_urgency_no_notifications: "notifications es = [] \<Longrightarrow> with_urgency u es = []"
  by (simp add: with_urgency_def)

text \<open>The state in which a run whose checks pass reaches the third step.\<close>

lemma executar_reaches_transfer:
  assumes "mount_ok w" "space_ok w cfg"
  shows "\<exists>evs. executar w cfg dry_run None initial
                = etapas_3_4 w cfg dry_run None (initial\<lparr>trace := evs\<rparr>)
              \<and> with_urgency Critical evs = [] \<and> with_urgency Low evs = []
              \<and> Enter RotacionarBackups \<notin> set evs \<and> IterDir \<notin> set evs
              \<and> attempted evs = []"
proof -
  from assms(2) obtain uso where u: "disk_usage w = Inr uso" "total_bytes uso \<noteq> 0"
    "\<not> livre_gb uso < espaco_minimo_gb cfg"
    and n: "livre_gb uso < espaco_minimo_gb cfg * 2 \<Longrightarrow> notify_result w EspacoBaixo Normal = Inr ()"
    by (auto simp: space_ok_def split: sum.splits if_splits)
  show ?thesis
  proof (cases "livre_gb uso < espaco_minimo_gb cfg * 2")
    case True
    show ?thesis
      by (rule exI [of _ "preamble dry_run @
            [Enter VerificarHdMontado, RunMountpoint [''mountpoint'', ''-q'', destino cfg],
             Log INFO Montado, Log INFO (Etapa 2), Enter VerificarEspacoDisco, DiskUsage,
             Log INFO (EspacoEmDisco uso), Log WARNING EspacoBaixoMsg,
             NotifySend Normal EspacoBaixo 5]"])
        (simp add: executar_mounted [OF assms(1)] verificar_espaco_disco_low [OF u True]
          n [OF True] initial_def preamble_def with_urgency_append attempted_append)
  next
    case False
    show ?thesis
      by (rule exI [of _ "preamble dry_run @
            [Enter VerificarHdMontado, RunMountpoint [''mountpoint'', ''-q'', destino cfg],
             Log INFO Montado, Log INFO (Etapa 2), Enter VerificarEspacoDisco, DiskUsage,
             Log INFO (EspacoEmDisco uso)]"])
        (simp add: executar_mounted [OF assms(1)] verificar_espaco_disco_plenty [OF u False]
          initial_def preamble_def with_urgency_append attempted_append)
  qed
qed

lemma etapas_3_4_failed:
  assumes "executar_rsync w cfg dry_run None (s\<lparr>trace := trace s @ [Log INFO (Etapa 3)]\<rparr>)
             = (case notify_result w n Critical of Inl e \<Rightarrow> Inl e | Inr _ \<Rightarrow> Inr False,
                s\<lparr>backup_dir := Some d, trace := trace s @ [Log INFO (Etapa 3)] @ evs\<rparr>)"
  shows "etapas_3_4 w cfg dry_run None s =
     (case notify_result w n Critical of Inl e \<Rightarrow> Inl e | Inr _ \<Rightarrow> Inr False,
      s\<lparr>backup_dir := Some d,
        trace := trace s @ [Log INFO (Etapa 3)] @ evs
          @ (case notify_result w n Critical of
               Inl e \<Rightarrow> []
             | Inr _ \<Rightarrow> [Log INFO Separador, Log INFO (BackupFinalizado False),
                         Log INFO Separador])\<rparr>)"
  using assms
  by (cases rule: notify_result_cases [of w n Critical])
    (simp_all add: etapas_3_4_def etapa_4_def prog_simps logger_None)

lemma transfer_failedI:
  assumes "mount_ok w" "space_ok w cfg"
    and "\<And>s. executar_rsync w cfg dry_run None s
             = (case notify_result w n Critical of Inl e \<Rightarrow> Inl e | Inr _ \<Rightarrow> Inr False,
                s\<lparr>backup_dir := Some d, trace := trace s @ evs @ [NotifySend Critical n 5]\<rparr>)"
    and "notifications evs = []" "Enter RotacionarBackups \<notin> set evs" "IterDir \<notin> set evs"
      "attempted evs = []"
  shows "transfer_failed w n (executar w cfg dry_run None initial)"
proof -
  from executar_reaches_transfer [OF assms(1,2), of dry_run] obtain evs0 where
    e: "executar w cfg dry_run None initial
          = etapas_3_4 w cfg dry_run None (initial\<lparr>trace := evs0\<rparr>)"
    and evs0: "with_urgency Critical evs0 = []" "Enter RotacionarBackups \<notin> set evs0"
      "IterDir \<notin> set evs0" "attempted evs0 = []"
    by blast
  have r: "executar_rsync w cfg dry_run None
             (initial\<lparr>trace := evs0, trace := trace (initial\<lparr>trace := evs0\<rparr>) @ [Log INFO (Etapa 3)]\<rparr>)
           = (case notify_result w n Critical of Inl e \<Rightarrow> Inl e | Inr _ \<Rightarrow> Inr False,
              initial\<lparr>trace := evs0, backup_dir := Some d,
                trace := trace (initial\<lparr>trace := evs0\<rparr>) @ [Log INFO (Etapa 3)]
                  @ (evs @ [NotifySend Critical n 5])\<rparr>)"
    by (simp add: assms(3))
  show ?thesis
    unfolding e etapas_3_4_failed [OF r]
    by (cases rule: notify_result_cases [of w n Critical])
      (simp_all add: transfer_failed_def evs0 assms(4-7) with_urgency_append attempted_append
        with_urgency_no_notifications exit_status_simps exit_status_exn)
qed


lemma with_urgency_all_not:
  "list_all (\<lambda>e. \<forall>n t. e \<noteq> NotifySend u n t) es \<Longrightarrow> with_urgency u es = []"
proof (induction es)
  case Nil
  show ?case by simp
next
  case (Cons e es)
  then show ?case by (cases e) auto
qed

lemma etapas_3_4_zero:
  assumes "dry_run \<or> mkdir_result w = None"
    "rsync_run w (rsync_cmd cfg dry_run (backup_dir_name w)) = Inr c" "returncode c = 0"
  shows "\<exists>evs. trace (snd (etapas_3_4 w cfg dry_run None s)) = trace s @ evs
              \<and> with_urgency Critical evs = []
              \<and> Log INFO (BackupSucesso (formatar_duracao (rsync_duration w))) \<in> set evs"
proof -
  let ?rest = "seq (etapa_4 w cfg dry_run True)
      (seq (logger w INFO Separador)
        (seq (logger w INFO (BackupFinalizado True))
          (seq (logger w INFO Separador) (pure True))))"
  let ?evs1 = "Log INFO (Etapa 3) # rsync_start_events w cfg dry_run @ rsync_lines c
      @ [Log INFO (BackupSucesso (formatar_duracao (rsync_duration w)))]
      @ resumo_events w dry_run (rsync_duration w)"
  let ?s1 = "s\<lparr>backup_dir := Some (backup_dir_name w), trace := trace s @ ?evs1\<rparr>"
  have e: "etapas_3_4 w cfg dry_run None s = ?rest None ?s1"
    by (simp add: etapas_3_4_def seq_apply [of "logger w INFO (Etapa 3)"] bnd_apply logger_None
        executar_rsync_zero [OF assms])
  have rot: "emits None (\<lambda>e. \<forall>n t. e \<noteq> NotifySend Critical n t)
      (rotacionar_backups w cfg dry_run)"
    by (rule emits_rotacionar_backups) (simp_all add: handler_ok_def)
  have "emits None (\<lambda>e. \<forall>n t. e \<noteq> NotifySend Critical n t) ?rest"
    unfolding etapa_4_def
    by (intro emits_intros emits_if rot) (simp_all add: handler_ok_def)
  then obtain evs2 where evs2: "trace (snd (?rest None ?s1)) = trace ?s1 @ evs2"
    "list_all (\<lambda>e. \<forall>n t. e \<noteq> NotifySend Critical n t) evs2"
    by (rule emitsD)
  show ?thesis
    unfolding e evs2(1)
    by (rule exI [of _ "?evs1 @ evs2"])
      (simp add: evs2(2) with_urgency_append with_urgency_all_not with_urgency_no_notifications)
qed

lemma etapas_3_4_success_dry:
  assumes "rsync_run w (rsync_cmd cfg True (backup_dir_name w)) = Inr c" "returncode c = 0"
  shows "\<exists>evs. etapas_3_4 w cfg True None s =
                 (Inr True, s\<lparr>backup_dir := Some (backup_dir_name w), trace := trace s @ evs\<rparr>)
              \<and> notifications evs = []"
  by (rule exI [of _ "Log INFO (Etapa 3) # rsync_start_events w cfg True @ rsync_lines c
        @ [Log INFO (BackupSucesso (formatar_duracao (rsync_duration w)))]
        @ resumo_events w True (rsync_duration w)
        @ [Log INFO (Etapa 4), Enter RotacionarBackups, Log INFO DryRunPulandoRotacao,
           Log INFO Separador, Log INFO (BackupFinalizado True), Log INFO Separador]"])
    (simp add: etapas_3_4_def etapa_4_def prog_simps logger_None executar_rsync_zero assms
      rotacionar_backups_dry notifications_append)

lemma etapas_3_4_success:
  assumes "mkdir_result w = None"
    "rsync_run w (rsync_cmd cfg False (backup_dir_name w)) = Inr c" "returncode c = 0"
    "rotation_completes w cfg"
  shows "\<exists>evs. etapas_3_4 w cfg False None s =
                 (case notify_result w BackupConcluido Low of
                    Inl e \<Rightarrow> Inl e | Inr _ \<Rightarrow> Inr True,
                  s\<lparr>backup_dir := Some (backup_dir_name w), trace := trace s @ evs\<rparr>)
              \<and> notifications evs = [(BackupConcluido, Low)]"
proof -
  from assms(4) obtain limite pastas where
    r: "minus_days (now_rotation w) (retencao_dias cfg) = Some limite" "iterdir w = Inr pastas"
    by (auto simp: rotation_completes_def split: sum.splits)
  note rot = rotacionar_backups_None [OF r]
  let ?evs = "Log INFO (Etapa 3) # rsync_start_events w cfg False @ rsync_lines c
        @ [Log INFO (BackupSucesso (formatar_duracao (rsync_duration w)))]
        @ resumo_events w False (rsync_duration w)
        @ [Log INFO (Etapa 4), Enter RotacionarBackups,
           Log INFO (VerificandoAntigos (retencao_dias cfg) limite), IterDir]
        @ rotacao_events limite (sort_key name pastas)
        @ [Log INFO
             (if length (filter (\<lambda>p. candidate limite p \<and> rmtree p = None)
                           (sort_key name pastas)) > 0
              then Removidos (length (filter (\<lambda>p. candidate limite p \<and> rmtree p = None)
                                        (sort_key name pastas)))
              else NenhumRemovido),
           NotifySend Low BackupConcluido 5]"
  show ?thesis
  proof (cases rule: notify_result_cases [of w BackupConcluido Low])
    case 1
    show ?thesis
      by (rule exI [of _ "?evs @ [Log INFO Separador, Log INFO (BackupFinalizado True),
            Log INFO Separador]"])
        (simp add: etapas_3_4_def etapa_4_def prog_simps logger_None executar_rsync_zero
          assms(1-3) rot enviar_notificacao_None 1 notifications_append)
  next
    case (2 e)
    show ?thesis
      by (rule exI [of _ ?evs])
        (simp add: etapas_3_4_def etapa_4_def prog_simps logger_None executar_rsync_zero
          assms(1-3) rot enviar_notificacao_None 2 notifications_append)
  qed
qed

text \<open>
  C5 (amended). In a run without a signal whose checks pass and that gets to call the
  transfer tool: a launch failure or exception of the call, or a non-zero exit status, is a
  failed transfer (the run does not succeed, exit status 1, exactly one critical
  notification, no rotation).  With exit status 0 the transfer step succeeds and the run
  sends no critical notification; a dry run then returns success without a low-urgency
  notification; a real run whose rotation gets through sends exactly one low-urgency
  notification and returns success provided that the notification call does not raise.
\<close>

theorem transfer_outcomes:
  assumes "mount_ok w" "space_ok w cfg" "dry_run \<or> mkdir_result w = None"
  shows "(\<forall>f. rsync_run w (rsync_cmd cfg dry_run (backup_dir_name w)) = Inl f \<longrightarrow>
            transfer_failed w (ErroRsync (exn_of f)) (executar w cfg dry_run None initial))
       \<and> (\<forall>c. rsync_run w (rsync_cmd cfg dry_run (backup_dir_name w)) = Inr c
               \<and> returncode c \<noteq> 0 \<longrightarrow>
            transfer_failed w (RsyncFalhou (returncode c)) (executar w cfg dry_run None initial))
       \<and> (\<forall>c. rsync_run w (rsync_cmd cfg dry_run (backup_dir_name w)) = Inr c
               \<and> returncode c = 0 \<longrightarrow>
            (case executar w cfg dry_run None initial of
               (r, s) \<Rightarrow>
                 Log INFO (BackupSucesso (formatar_duracao (rsync_duration w))) \<in> set (trace s)
                 \<and> with_urgency Critical (trace s) = []
                 \<and> (dry_run \<longrightarrow> r = Inr True \<and> exit_status r = 0
                                 \<and> with_urgency Low (trace s) = [])
                 \<and> (\<not> dry_run \<and> rotation_completes w cfg \<longrightarrow>
                      with_urgency Low (trace s) = [(BackupConcluido, Low)]
                      \<and> (notify_result w BackupConcluido Low = Inr () \<longrightarrow>
                           r = Inr True \<and> exit_status r = 0))))"
proof (intro conjI allI impI)
  fix f
  assume f: "rsync_run w (rsync_cmd cfg dry_run (backup_dir_name w)) = Inl f"
  show "transfer_failed w (ErroRsync (exn_of f)) (executar w cfg dry_run None initial)"
    by (rule transfer_failedI [OF assms(1,2), where d = "backup_dir_name w"
          and evs = "rsync_start_events w cfg dry_run @ [Log ERROR (ErroExecutarRsync (exn_of f))]"])
      (simp_all add: executar_rsync_raises [OF assms(3) f] notifications_append attempted_append)
next
  fix c
  assume "rsync_run w (rsync_cmd cfg dry_run (backup_dir_name w)) = Inr c \<and> returncode c \<noteq> 0"
  then have c: "rsync_run w (rsync_cmd cfg dry_run (backup_dir_name w)) = Inr c"
    "returncode c \<noteq> 0" by simp_all
  show "transfer_failed w (RsyncFalhou (returncode c)) (executar w cfg dry_run None initial)"
    by (rule transfer_failedI [OF assms(1,2), where d = "backup_dir_name w"
          and evs = "rsync_start_events w cfg dry_run @ rsync_lines c
            @ [Log ERROR (RsyncFalhouMsg (returncode c)
                 (if stderr c \<noteq> [] then py_strip (stderr c) else ''Erro desconhecido''))]"])
      (simp_all add: executar_rsync_nonzero [OF assms(3) c] notifications_append
        attempted_append)
next
  fix c
  assume "rsync_run w (rsync_cmd cfg dry_run (backup_dir_name w)) = Inr c \<and> returncode c = 0"
  then have c: "rsync_run w (rsync_cmd cfg dry_run (backup_dir_name w)) = Inr c"
    "returncode c = 0" by simp_all
  from executar_reaches_transfer [OF assms(1,2), of dry_run] obtain evs0 where
    e: "executar w cfg dry_run None initial
          = etapas_3_4 w cfg dry_run None (initial\<lparr>trace := evs0\<rparr>)"
    and evs0: "with_urgency Critical evs0 = []" "with_urgency Low evs0 = []"
    by blast
  obtain r s where rs: "etapas_3_4 w cfg dry_run None (initial\<lparr>trace := evs0\<rparr>) = (r, s)"
    by (cases "etapas_3_4 w cfg dry_run None (initial\<lparr>trace := evs0\<rparr>)")
  from etapas_3_4_zero [OF assms(3) c, of "initial\<lparr>trace := evs0\<rparr>"] rs evs0
  have general: "Log INFO (BackupSucesso (formatar_duracao (rsync_duration w))) \<in> set (trace s)"
    "with_urgency Critical (trace s) = []"
    by (auto simp: with_urgency_append)
  have dry: "r = Inr True \<and> exit_status r = 0 \<and> with_urgency Low (trace s) = []" if dry_run
  proof -
    from etapas_3_4_success_dry [of w cfg c "initial\<lparr>trace := evs0\<rparr>"] c that rs
    obtain evs where "r = Inr True" "trace s = evs0 @ evs" "notifications evs = []"
      by auto
    with evs0 show ?thesis
      by (simp add: exit_status_simps with_urgency_append with_urgency_no_notifications)
  qed
  have real: "with_urgency Low (trace s) = [(BackupConcluido, Low)]
      \<and> (notify_result w BackupConcluido Low = Inr () \<longrightarrow> r = Inr True \<and> exit_status r = 0)"
    if "\<not> dry_run \<and> rotation_completes w cfg"
  proof -
    from that assms(3) have "mkdir_result w = None" by simp
    from etapas_3_4_success [OF this, of cfg c "initial\<lparr>trace := evs0\<rparr>"] c that rs
    obtain evs where
      "r = (case notify_result w BackupConcluido Low of Inl e \<Rightarrow> Inl e | Inr _ \<Rightarrow> Inr True)"
      "trace s = evs0 @ evs" "notifications evs = [(BackupConcluido, Low)]"
      by auto
    with evs0 show ?thesis
      by (auto simp: exit_status_simps with_urgency_def notifications_append)
  qed
  show "case executar w cfg dry_run None initial of
          (r, s) \<Rightarrow>
            Log INFO (BackupSucesso (formatar_duracao (rsync_duration w))) \<in> set (trace s)
            \<and> with_urgency Critical (trace s) = []
            \<and> (dry_run \<longrightarrow> r = Inr True \<and> exit_status r = 0 \<and> with_urgency Low (trace s) = [])
            \<and> (\<not> dry_run \<and> rotation_completes w cfg \<longrightarrow>
                 with_urgency Low (trace s) = [(BackupConcluido, Low)]
                 \<and> (notify_result w BackupConcluido Low = Inr () \<longrightarrow>
                      r = Inr True \<and> exit_status r = 0))"
    using general dry real by (simp add: e rs exit_status_simps)
qed


lemma world_ex_checks:
  "mount_ok (world_ex\<lparr>rsync_run := g\<rparr>)" "space_ok (world_ex\<lparr>rsync_run := g\<rparr>) cfg_ex"
  "mkdir_result (world_ex\<lparr>rsync_run := g\<rparr>) = None"
  "mount_ok world_ex" "space_ok world_ex cfg_ex" "mkdir_result world_ex = None"
  by (simp_all add: mount_ok_def space_ok_def livre_gb_def example_simps)

lemma fst_main:
  "fst (main w cfg dry_run sg) =
     (if origem cfg = [] \<or> destino cfg = [] then 1
      else exit_status (fst (executar w cfg dry_run sg initial)))"
  by (simp add: main_def split: prod.splits)

lemmas date_simps = minus_days_def toordinal_def days_before_year_def days_before_month_def
  is_leap_def MAXORDINAL_def

lemmas parse_simps = startswith_def py_replace_def strptime_ymd_def regex_match_def
  match_year_def month_alts_def day_alts_def after_month_def is_digit_def digit_val_def
  in_range_def valid_date_def days_in_month_def before_def instant_of_def

lemma minus_days_example:
  "minus_days (now_rotation world_ex) (retencao_dias cfg_ex) = Some (739192, 10861000000)"
  by (simp add: date_simps example_simps)

lemma rotation_completes_example: "rotation_completes world_ex cfg_ex"
  unfolding rotation_completes_def minus_days_example by (simp add: example_simps)

theorem transfer_outcomes_witness:
  "mount_ok world_ex \<and> space_ok world_ex cfg_ex \<and> mkdir_result world_ex = None
   \<and> rotation_completes world_ex cfg_ex
   \<and> fst (executar world_ex cfg_ex False None initial) = Inr True
   \<and> with_urgency Low (trace (snd (executar world_ex cfg_ex False None initial)))
       = [(BackupConcluido, Low)]
   \<and> with_urgency Critical (trace (snd (executar world_ex cfg_ex False None initial))) = []
   \<and> transfer_failed (world_ex\<lparr>rsync_run := \<lambda>cmd. Inr (done_ok\<lparr>returncode := 23\<rparr>)\<rparr>)
       (RsyncFalhou 23)
       (executar (world_ex\<lparr>rsync_run := \<lambda>cmd. Inr (done_ok\<lparr>returncode := 23\<rparr>)\<rparr>) cfg_ex False
          None initial)
   \<and> transfer_failed (world_ex\<lparr>rsync_run := \<lambda>cmd. Inl (RunOSError FileNotFound)\<rparr>)
       (ErroRsync (OSError FileNotFound))
       (executar (world_ex\<lparr>rsync_run := \<lambda>cmd. Inl (RunOSError FileNotFound)\<rparr>) cfg_ex False
          None initial)"
proof -
  have n: "notify_result world_ex BackupConcluido Low = Inr ()"
    by (simp add: notify_result_def world_ex_def)
  have r: "rsync_run world_ex cmd = Inr done_ok" "returncode done_ok = 0" for cmd
    by (simp_all add: world_ex_def done_ok_def)
  from transfer_outcomes [OF world_ex_checks(4) world_ex_checks(5), of False]
    world_ex_checks(6) r n rotation_completes_example
  have ok: "fst (executar world_ex cfg_ex False None initial) = Inr True
    \<and> with_urgency Low (trace (snd (executar world_ex cfg_ex False None initial)))
        = [(BackupConcluido, Low)]
    \<and> with_urgency Critical (trace (snd (executar world_ex cfg_ex False None initial))) = []"
    by (auto split: prod.splits)
  from transfer_outcomes [OF world_ex_checks(1) world_ex_checks(2), of False
      "\<lambda>cmd. Inr (done_ok\<lparr>returncode := 23\<rparr>)"] world_ex_checks(3)
  have f1: "transfer_failed (world_ex\<lparr>rsync_run := \<lambda>cmd. Inr (done_ok\<lparr>returncode := 23\<rparr>)\<rparr>)
       (RsyncFalhou 23)
       (executar (world_ex\<lparr>rsync_run := \<lambda>cmd. Inr (done_ok\<lparr>returncode := 23\<rparr>)\<rparr>) cfg_ex False
          None initial)"
    by simp
  from transfer_outcomes [OF world_ex_checks(1) world_ex_checks(2), of False
      "\<lambda>cmd. Inl (RunOSError FileNotFound)"] world_ex_checks(3)
  have f2: "transfer_failed (world_ex\<lparr>rsync_run := \<lambda>cmd. Inl (RunOSError FileNotFound)\<rparr>)
       (ErroRsync (OSError FileNotFound))
       (executar (world_ex\<lparr>rsync_run := \<lambda>cmd. Inl (RunOSError FileNotFound)\<rparr>) cfg_ex False
          None initial)"
    by (simp add: exn_of_def)
  from ok f1 f2 world_ex_checks(4-6) rotation_completes_example show ?thesis by simp
qed

text \<open>
  The transfer tool exits with status 0 and the rotation gets through, yet the run does not
  return success and the process exits with status 1: the call that sends the success
  notification raises an exception that \<open>enviar_notificacao\<close> does not catch.
\<close>

theorem success_notification_can_fail_run:
  "rsync_run (world_ex\<lparr>notify_send := no_permission\<rparr>)
       (rsync_cmd cfg_ex False (backup_dir_name (world_ex\<lparr>notify_send := no_permission\<rparr>)))
     = Inr done_ok
   \<and> returncode done_ok = 0
   \<and> fst (executar (world_ex\<lparr>notify_send := no_permission\<rparr>) cfg_ex False None initial)
       = Inl (OSError PermissionDenied)
   \<and> fst (main (world_ex\<lparr>notify_send := no_permission\<rparr>) cfg_ex False None) = 1"
proof -
  have "fst (executar (world_ex\<lparr>notify_send := no_permission\<rparr>) cfg_ex False None initial)
       = Inl (OSError PermissionDenied)"
    by (simp add: run_simps example_simps date_simps parse_simps)
  then show ?thesis
    by (simp add: fst_main exit_status_def) (simp add: world_ex_def done_ok_def cfg_ex_def)
qed

text \<open>
  A retention of more days than have passed since 0001-01-01: the limit of the rotation
  is not a representable date, \<open>rotacionar_backups\<close> raises \<open>OverflowError\<close>, which nothing
  catches, and no success notification is sent although the transfer succeeded.
\<close>

lemma huge_retention_raises:
  "fst (executar world_ex (cfg_ex\<lparr>retencao_dias := 1000000\<rparr>) False None initial)
     = Inl OverflowError
   \<and> notifications
       (trace (snd (executar world_ex (cfg_ex\<lparr>retencao_dias := 1000000\<rparr>) False None initial)))
     = []"
  by (simp add: run_simps example_simps date_simps)


subsection \<open>Runs that differ only in what the world answers\<close>

lemma simI:
  assumes "\<And>s t. same keep s t \<Longrightarrow>
      fst (p None s) = fst (q None t) \<and> same keep (snd (p None s)) (snd (q None t))"
  shows "sim keep p q"
  using assms by (simp add: sim_def)

lemma simD:
  assumes "sim keep p q" "same keep s t"
  shows "fst (p None s) = fst (q None t)" "same keep (snd (p None s)) (snd (q None t))"
  using assms by (simp_all add: sim_def)

lemma sim_pure: "sim keep (pure x) (pure x)"
  by (simp add: sim_def pure_apply)

lemma sim_raise: "sim keep (raise e) (raise e)"
  by (simp add: sim_def raise_apply)

lemma sim_bnd:
  assumes "sim keep m m'" "\<And>x. sim keep (f x) (f' x)"
  shows "sim keep (bnd m f) (bnd m' f')"
proof (rule simI)
  fix s t
  assume st: "same keep s t"
  obtain r s1 where m: "m None s = (r, s1)" by (cases "m None s")
  obtain r' t1 where m': "m' None t = (r', t1)" by (cases "m' None t")
  from simD [OF assms(1) st] m m' have rr: "r' = r" "same keep s1 t1" by simp_all
  show "fst (bnd m f None s) = fst (bnd m' f' None t)
      \<and> same keep (snd (bnd m f None s)) (snd (bnd m' f' None t))"
  proof (cases r)
    case (Inl e)
    with m m' rr show ?thesis by (simp add: bnd_apply)
  next
    case (Inr x)
    with m m' rr simD [OF assms(2) [of x] rr(2)] show ?thesis by (simp add: bnd_apply)
  qed
qed

lemma sim_seq: "sim keep m m' \<Longrightarrow> sim keep n n' \<Longrightarrow> sim keep (seq m n) (seq m' n')"
  by (simp add: seq_def sim_bnd)

lemma sim_try_except:
  assumes "sim keep m m'"
    "\<And>e. (h e = None \<and> h' e = None) \<or> (\<exists>k k'. h e = Some k \<and> h' e = Some k' \<and> sim keep k k')"
  shows "sim keep (try_except m h) (try_except m' h')"
proof (rule simI)
  fix s t
  assume st: "same keep s t"
  obtain r s1 where m: "m None s = (r, s1)" by (cases "m None s")
  obtain r' t1 where m': "m' None t = (r', t1)" by (cases "m' None t")
  from simD [OF assms(1) st] m m' have rr: "r' = r" "same keep s1 t1" by simp_all
  show "fst (try_except m h None s) = fst (try_except m' h' None t)
      \<and> same keep (snd (try_except m h None s)) (snd (try_except m' h' None t))"
  proof (cases r)
    case (Inr x)
    with m m' rr show ?thesis by (simp add: try_except_apply)
  next
    case (Inl e)
    from assms(2) [of e] show ?thesis
    proof
      assume "h e = None \<and> h' e = None"
      with Inl m m' rr show ?thesis by (simp add: try_except_apply)
    next
      assume "\<exists>k k'. h e = Some k \<and> h' e = Some k' \<and> sim keep k k'"
      then obtain k k' where k: "h e = Some k" "h' e = Some k'" "sim keep k k'" by blast
      with Inl m m' rr simD [OF k(3) rr(2)] show ?thesis by (simp add: try_except_apply)
    qed
  qed
qed

lemma sim_modify:
  assumes "\<And>s t. same keep s t \<Longrightarrow> same keep (f s) (f t)"
  shows "sim keep (modify f) (modify f)"
  using assms by (simp add: sim_def modify_apply)

lemma sim_get_backup_dir: "sim keep get_backup_dir get_backup_dir"
  by (simp add: sim_def get_backup_dir_apply same_def)

lemma sim_emit: "sim keep (emit w e) (emit w' e)"
  by (simp add: sim_def emit_None same_def)

lemma sim_logger: "sim keep (logger w l m) (logger w' l m)"
  by (simp add: logger_def sim_emit)

lemma sim_enviar_notificacao:
  assumes "notify_result w' n u = notify_result w n u"
  shows "sim keep (enviar_notificacao w n u) (enviar_notificacao w' n u)"
  using assms by (simp add: sim_def enviar_notificacao_None same_def)

lemma sim_subprocess_run:
  "sim keep (subprocess_run (emit w) ev answer) (subprocess_run (emit w') ev answer)"
  by (simp add: sim_def subprocess_run_None same_def)

lemma sim_os_call: "sim keep (os_call (emit w) ev answer) (os_call (emit w') ev answer)"
  by (simp add: sim_def os_call_None same_def)

lemma sim_if:
  "(c \<Longrightarrow> sim keep p p') \<Longrightarrow> (\<not> c \<Longrightarrow> sim keep q q')
   \<Longrightarrow> sim keep (if c then p else q) (if c then p' else q')"
  by simp

lemma sim_case_option:
  "sim keep p p' \<Longrightarrow> (\<And>y. sim keep (q y) (q' y))
   \<Longrightarrow> sim keep (case x of None \<Rightarrow> p | Some y \<Rightarrow> q y) (case x of None \<Rightarrow> p' | Some y \<Rightarrow> q' y)"
  by (cases x) simp_all

lemma sim_for_each:
  assumes "\<And>x. sim keep (f x) (f' x)"
  shows "sim keep (for_each f xs) (for_each f' xs)"
  by (induction xs) (simp_all add: sim_pure sim_seq assms)

lemmas sim_intros = sim_pure sim_raise sim_bnd sim_seq sim_logger sim_emit sim_subprocess_run
  sim_os_call sim_if sim_case_option sim_for_each sim_get_backup_dir

lemma sim_handler:
  assumes "sim keep k k'"
  shows "((if c then Some k else None) = None \<and> (if c then Some k' else None) = None)
       \<or> (\<exists>a a'. (if c then Some k else None) = Some a \<and> (if c then Some k' else None) = Some a'
              \<and> sim keep a a')"
  using assms by simp

lemma sim_verificar_hd_montado:
  assumes "agree w w'"
  shows "sim keep (verificar_hd_montado w cfg) (verificar_hd_montado w' cfg)"
proof -
  from assms have a: "dest_exists w' = dest_exists w" "mountpoint_run w' = mountpoint_run w"
    "\<And>n u. notify_result w' n u = notify_result w n u"
    by (simp_all add: agree_def)
  show ?thesis
    unfolding verificar_hd_montado_def a(1,2)
    by (intro sim_intros sim_enviar_notificacao a(3))
qed

lemma sim_verificar_espaco_disco:
  assumes "agree w w'"
  shows "sim keep (verificar_espaco_disco w cfg) (verificar_espaco_disco w' cfg)"
proof -
  from assms have a: "disk_usage w' = disk_usage w"
    "\<And>n u. notify_result w' n u = notify_result w n u"
    by (simp_all add: agree_def)
  show ?thesis
    unfolding verificar_espaco_disco_def a(1)
    by (intro sim_intros sim_try_except sim_handler sim_enviar_notificacao a(2))
qed

lemma sim_registrar_resumo:
  assumes "agree w w'"
  shows "sim keep (registrar_resumo w dry_run d) (registrar_resumo w' dry_run d)"
proof -
  from assms have a: "backup_dir_exists w' = backup_dir_exists w" "rglob_sizes w' = rglob_sizes w"
    by (simp_all add: agree_def)
  show ?thesis
    unfolding registrar_resumo_def a
    by (intro sim_intros sim_try_except sim_handler)
qed

lemma sim_executar_rsync:
  assumes "agree w w'"
  shows "sim keep (executar_rsync w cfg dry_run) (executar_rsync w' cfg dry_run)"
proof -
  from assms have a: "now_backup w' = now_backup w" "mkdir_result w' = mkdir_result w"
    "rsync_run w' = rsync_run w" "rsync_duration w' = rsync_duration w"
    and n: "\<And>n u. notify_result w' n u = notify_result w n u"
    by (simp_all add: agree_def)
  have b: "backup_dir_name w' = backup_dir_name w"
    by (simp add: backup_dir_name_def a)
  show ?thesis
    unfolding executar_rsync_def Let_def a b
    by (intro sim_intros sim_try_except sim_handler sim_enviar_notificacao n
        sim_registrar_resumo assms sim_modify)
      (simp add: same_def)
qed

lemma sim_executar:
  assumes "agree w w'"
    "sim keep (rotacionar_backups w cfg dry_run) (rotacionar_backups w' cfg dry_run)"
  shows "sim keep (executar w cfg dry_run) (executar w' cfg dry_run)"
proof -
  from assms(1) have n: "\<And>n u. notify_result w' n u = notify_result w n u"
    by (simp add: agree_def)
  show ?thesis
    unfolding executar_def
    by (intro sim_intros sim_enviar_notificacao n sim_verificar_hd_montado
        sim_verificar_espaco_disco sim_executar_rsync assms)
qed


subsection \<open>What the rotation removes\<close>

lemma removed_rotacao_events:
  "removed (rotacao_events limite pastas) =
     map name (filter (\<lambda>p. candidate limite p \<and> rmtree p = None) pastas)"
  by (induction pastas) (auto split: option.splits)

lemma attempted_rotacao_events:
  "attempted (rotacao_events limite pastas) = map name (filter (candidate limite) pastas)"
  by (induction pastas) (auto split: option.splits)

lemma outcome_rotacao_events: "filter outcome_event (rotacao_events limite pastas) = []"
  by (induction pastas) (auto split: option.splits)

lemma error_rotacao_events:
  assumes "p \<in> set pastas" "candidate limite p" "rmtree p = Some k"
  shows "Log ERROR (ErroRemover (name p) (OSError k)) \<in> set (rotacao_events limite pastas)"
  using assms by (induction pastas) (auto split: option.splits)

text \<open>The events of a rotation that gets through its listing.\<close>

lemma rotacionar_backups_events:
  assumes "minus_days (now_rotation w) (retencao_dias cfg) = Some limite"
    "iterdir w = Inr pastas"
  obtains evs where
    "rotacionar_backups w cfg False None s = (Inr PyNone, s\<lparr>trace := trace s @ evs\<rparr>)"
    "removed evs = map name (filter (\<lambda>p. candidate limite p \<and> rmtree p = None)
                               (sort_key name pastas))"
    "attempted evs = map name (filter (candidate limite) (sort_key name pastas))"
    "set (rotacao_events limite (sort_key name pastas)) \<subseteq> set evs"
    "last evs = Log INFO (if removed evs = [] then NenhumRemovido
                          else Removidos (length (removed evs)))"
proof -
  let ?n = "length (filter (\<lambda>p. candidate limite p \<and> rmtree p = None) (sort_key name pastas))"
  let ?evs = "[Enter RotacionarBackups,
          Log INFO (VerificandoAntigos (retencao_dias cfg) limite), IterDir]
          @ rotacao_events limite (sort_key name pastas)
          @ [Log INFO (if ?n > 0 then Removidos ?n else NenhumRemovido)]"
  have r: "removed ?evs = map name (filter (\<lambda>p. candidate limite p \<and> rmtree p = None)
                               (sort_key name pastas))"
    by (simp add: removed_append removed_rotacao_events)
  have a: "attempted ?evs = map name (filter (candidate limite) (sort_key name pastas))"
    by (simp add: attempted_append attempted_rotacao_events)
  have l: "last ?evs = Log INFO (if removed ?evs = [] then NenhumRemovido
                          else Removidos (length (removed ?evs)))"
    unfolding r by simp
  have sub: "set (rotacao_events limite (sort_key name pastas)) \<subseteq> set ?evs"
    by auto
  from that [of ?evs, OF rotacionar_backups_None [OF assms] r a sub l] show thesis .
qed

lemma agree_all_removals_succeed: "agree w (all_removals_succeed w)"
  by (simp add: agree_def all_removals_succeed_def notify_result_def)

lemma same_append:
  assumes "same keep s t" "filter keep xs = filter keep ys"
  shows "same keep (s\<lparr>trace := trace s @ xs\<rparr>) (t\<lparr>trace := trace t @ ys\<rparr>)"
  using assms by (simp add: same_def)

lemma sim_rotacionar_removals:
  "sim outcome_event (rotacionar_backups w cfg dry_run)
     (rotacionar_backups (all_removals_succeed w) cfg dry_run)"
proof (rule simI)
  fix s t
  assume st: "same outcome_event s t"
  let ?w = "all_removals_succeed w"
  have now: "now_rotation ?w = now_rotation w" by (simp add: all_removals_succeed_def)
  show "fst (rotacionar_backups w cfg dry_run None s) = fst (rotacionar_backups ?w cfg dry_run None t)
      \<and> same outcome_event (snd (rotacionar_backups w cfg dry_run None s))
          (snd (rotacionar_backups ?w cfg dry_run None t))"
  proof (cases dry_run)
    case True
    with st show ?thesis by (simp add: rotacionar_backups_dry same_append)
  next
    case False
    show ?thesis
    proof (cases "minus_days (now_rotation w) (retencao_dias cfg)")
      case None
      with st False now show ?thesis by (simp add: rotacionar_backups_overflow same_append)
    next
      case (Some limite)
      then have lim: "minus_days (now_rotation ?w) (retencao_dias cfg) = Some limite"
        by (simp add: now)
      show ?thesis
      proof (cases "iterdir w")
        case (Inl k)
        then have "iterdir ?w = Inl k" by (simp add: all_removals_succeed_def)
        from rotacionar_backups_iterdir_fails [OF Some Inl]
          rotacionar_backups_iterdir_fails [OF lim this] st False
        show ?thesis by (simp add: same_append)
      next
        case (Inr pastas)
        then have "iterdir ?w = Inr (map (\<lambda>p. p\<lparr>rmtree := None\<rparr>) pastas)"
          by (simp add: all_removals_succeed_def)
        from rotacionar_backups_None [OF Some Inr] rotacionar_backups_None [OF lim this] st False
        show ?thesis by (simp add: same_append outcome_rotacao_events)
      qed
    qed
  qed
qed

lemma same_initial: "same keep initial initial"
  by (simp add: same_def)

lemma notifications_outcome:
  "notifications (filter outcome_event es) = notifications es"
proof (induction es)
  case Nil
  show ?case by simp
next
  case (Cons e es)
  then show ?case by (cases e) simp_all
qed

text \<open>
  C7 (amended). A rotation that gets through the listing of the destination returns
  nothing (\<open>None\<close>); the number of directories it removed is the number it logs at the
  end. A removal that fails is logged as an error and every other directory to remove is
  still attempted. Whatever the removals do, the run returns what it returns, and sends
  the notifications it sends, when every removal succeeds.
\<close>

theorem removal_errors_are_not_fatal:
  assumes "minus_days (now_rotation w) (retencao_dias cfg) = Some limite"
    "iterdir w = Inr pastas"
  shows "(\<exists>evs. rotacionar_backups w cfg False None s = (Inr PyNone, s\<lparr>trace := trace s @ evs\<rparr>)
            \<and> last evs = Log INFO (if removed evs = [] then NenhumRemovido
                                   else Removidos (length (removed evs)))
            \<and> (\<forall>p \<in> set pastas. candidate limite p \<longrightarrow>
                  name p \<in> set (attempted evs)
                  \<and> (rmtree p = None \<longrightarrow> name p \<in> set (removed evs))
                  \<and> (\<forall>k. rmtree p = Some k \<longrightarrow>
                        Log ERROR (ErroRemover (name p) (OSError k)) \<in> set evs)))
       \<and> fst (executar w cfg dry_run None initial)
           = fst (executar (all_removals_succeed w) cfg dry_run None initial)
       \<and> notifications (trace (snd (executar w cfg dry_run None initial)))
           = notifications (trace (snd (executar (all_removals_succeed w) cfg dry_run None
               initial)))"
proof -
  obtain evs where evs:
    "rotacionar_backups w cfg False None s = (Inr PyNone, s\<lparr>trace := trace s @ evs\<rparr>)"
    "removed evs = map name (filter (\<lambda>p. candidate limite p \<and> rmtree p = None)
                               (sort_key name pastas))"
    "attempted evs = map name (filter (candidate limite) (sort_key name pastas))"
    "set (rotacao_events limite (sort_key name pastas)) \<subseteq> set evs"
    "last evs = Log INFO (if removed evs = [] then NenhumRemovido
                          else Removidos (length (removed evs)))"
    by (rule rotacionar_backups_events [OF assms])
  have each: "name p \<in> set (attempted evs)
                  \<and> (rmtree p = None \<longrightarrow> name p \<in> set (removed evs))
                  \<and> (\<forall>k. rmtree p = Some k \<longrightarrow>
                        Log ERROR (ErroRemover (name p) (OSError k)) \<in> set evs)"
    if p: "p \<in> set pastas" "candidate limite p" for p
  proof -
    from p have "name p \<in> set (attempted evs)" by (simp add: evs(3))
    moreover from p have "rmtree p = None \<longrightarrow> name p \<in> set (removed evs)"
      by (simp add: evs(2))
    moreover have "Log ERROR (ErroRemover (name p) (OSError k)) \<in> set evs"
      if "rmtree p = Some k" for k
    proof -
      from p(1) have "p \<in> set (sort_key name pastas)" by simp
      from error_rotacao_events [OF this p(2) that] evs(4) show ?thesis by blast
    qed
    ultimately show ?thesis by blast
  qed
  have s: "sim outcome_event (executar w cfg dry_run)
             (executar (all_removals_succeed w) cfg dry_run)"
    by (rule sim_executar [OF agree_all_removals_succeed sim_rotacionar_removals])
  from simD [OF s same_initial]
  have r: "fst (executar w cfg dry_run None initial)
           = fst (executar (all_removals_succeed w) cfg dry_run None initial)"
    and t: "filter outcome_event (trace (snd (executar w cfg dry_run None initial)))
           = filter outcome_event
               (trace (snd (executar (all_removals_succeed w) cfg dry_run None initial)))"
    by (simp_all add: same_def)
  from t have n: "notifications (trace (snd (executar w cfg dry_run None initial)))
           = notifications (trace (snd (executar (all_removals_succeed w) cfg dry_run None
               initial)))"
    by (metis notifications_outcome)
  from evs(1) evs(5) each r n show ?thesis by blast
qed

lemma minus_days_locked:
  "minus_days (now_rotation world_locked) (retencao_dias cfg_ex) = Some (739192, 10861000000)"
  by (simp add: date_simps example_simps world_locked_def)

lemma candidate_locked:
  "candidate (739192, 10861000000)
     \<lparr>name = ''backup_2023-06-01'', is_dir = True, rmtree = Some PermissionDenied\<rparr>"
  "candidate (739192, 10861000000)
     \<lparr>name = ''backup_2024-01-01'', is_dir = True, rmtree = None\<rparr>"
  by (simp_all add: candidate_def date_simps parse_simps)

theorem removal_errors_are_not_fatal_witness:
  "minus_days (now_rotation world_locked) (retencao_dias cfg_ex) = Some (739192, 10861000000)
   \<and> iterdir world_locked = Inr listing_locked
   \<and> (\<exists>evs. rotacionar_backups world_locked cfg_ex False None initial
              = (Inr PyNone, initial\<lparr>trace := trace initial @ evs\<rparr>)
          \<and> last evs = Log INFO (if removed evs = [] then NenhumRemovido
                                 else Removidos (length (removed evs)))
          \<and> ''backup_2023-06-01'' \<in> set (attempted evs)
          \<and> Log ERROR (ErroRemover ''backup_2023-06-01'' (OSError PermissionDenied)) \<in> set evs
          \<and> ''backup_2024-01-01'' \<in> set (removed evs))
   \<and> fst (executar world_locked cfg_ex False None initial) = Inr True"
proof -
  have l: "iterdir world_locked = Inr listing_locked" by (simp add: world_locked_def)
  have ok: "fst (executar (all_removals_succeed world_locked) cfg_ex False None initial) = Inr True"
    by (simp add: run_simps example_simps date_simps parse_simps world_locked_def
        listing_locked_def all_removals_succeed_def)
  from removal_errors_are_not_fatal [OF minus_days_locked l, of initial False]
  obtain evs where evs:
    "rotacionar_backups world_locked cfg_ex False None initial
       = (Inr PyNone, initial\<lparr>trace := trace initial @ evs\<rparr>)"
    "last evs = Log INFO (if removed evs = [] then NenhumRemovido
                          else Removidos (length (removed evs)))"
    "\<forall>p \<in> set listing_locked. candidate (739192, 10861000000) p \<longrightarrow>
        name p \<in> set (attempted evs)
        \<and> (rmtree p = None \<longrightarrow> name p \<in> set (removed evs))
        \<and> (\<forall>k. rmtree p = Some k \<longrightarrow>
                        Log ERROR (ErroRemover (name p) (OSError k)) \<in> set evs)"
    and r: "fst (executar world_locked cfg_ex False None initial)
           = fst (executar (all_removals_succeed world_locked) cfg_ex False None initial)"
    by blast
  from evs(3) candidate_locked
  have "''backup_2023-06-01'' \<in> set (attempted evs)
          \<and> Log ERROR (ErroRemover ''backup_2023-06-01'' (OSError PermissionDenied)) \<in> set evs
          \<and> ''backup_2024-01-01'' \<in> set (removed evs)"
    by (simp add: listing_locked_def)
  with evs(1,2)
  have "\<exists>evs. rotacionar_backups world_locked cfg_ex False None initial
              = (Inr PyNone, initial\<lparr>trace := trace initial @ evs\<rparr>)
          \<and> last evs = Log INFO (if removed evs = [] then NenhumRemovido
                                 else Removidos (length (removed evs)))
          \<and> ''backup_2023-06-01'' \<in> set (attempted evs)
          \<and> Log ERROR (ErroRemover ''backup_2023-06-01'' (OSError PermissionDenied)) \<in> set evs
          \<and> ''backup_2024-01-01'' \<in> set (removed evs)"
    by (intro exI [of _ evs] conjI) simp_all
  moreover from r ok have "fst (executar world_locked cfg_ex False None initial) = Inr True"
    by simp
  ultimately show ?thesis using minus_days_locked l by (intro conjI)
qed

text \<open>
  The rotation of the example removes one directory and returns \<open>None\<close>, not the number 1.
\<close>

theorem rotation_returns_no_count:
  "fst (rotacionar_backups world_ex cfg_ex False None initial) = Inr PyNone
   \<and> removed (trace (snd (rotacionar_backups world_ex cfg_ex False None initial)))
       = [''backup_2024-01-01'']
   \<and> fst (rotacionar_backups world_ex cfg_ex False None initial) \<noteq> Inr (PyInt 1)"
  by (simp add: run_simps example_simps date_simps parse_simps)


subsection \<open>Notifications\<close>

lemma sim_rotacionar_backups:
  assumes "now_rotation w' = now_rotation w" "iterdir w' = iterdir w"
  shows "sim keep (rotacionar_backups w cfg dry_run) (rotacionar_backups w' cfg dry_run)"
proof (rule simI)
  fix s t
  assume st: "same keep s t"
  show "fst (rotacionar_backups w cfg dry_run None s) = fst (rotacionar_backups w' cfg dry_run None t)
      \<and> same keep (snd (rotacionar_backups w cfg dry_run None s))
          (snd (rotacionar_backups w' cfg dry_run None t))"
  proof (cases dry_run)
    case True
    with st show ?thesis by (simp add: rotacionar_backups_dry same_append)
  next
    case False
    show ?thesis
    proof (cases "minus_days (now_rotation w) (retencao_dias cfg)")
      case None
      with st False assms show ?thesis by (simp add: rotacionar_backups_overflow same_append)
    next
      case (Some limite)
      then have lim: "minus_days (now_rotation w') (retencao_dias cfg) = Some limite"
        by (simp add: assms)
      show ?thesis
      proof (cases "iterdir w")
        case (Inl k)
        then have "iterdir w' = Inl k" by (simp add: assms)
        from rotacionar_backups_iterdir_fails [OF Some Inl]
          rotacionar_backups_iterdir_fails [OF lim this] st False
        show ?thesis by (simp add: same_append)
      next
        case (Inr pastas)
        then have "iterdir w' = Inr pastas" by (simp add: assms)
        from rotacionar_backups_None [OF Some Inr] rotacionar_backups_None [OF lim this] st False
        show ?thesis by (simp add: same_append)
      qed
    qed
  qed
qed

lemma swallowed_notify_result: "swallowed (notify_send w n u) \<Longrightarrow> notify_result w n u = Inr ()"
  by (auto simp: swallowed_def notify_result_def split: sum.splits)

lemma notify_result_notifier_works: "notify_result (notifier_works w) n u = Inr ()"
  by (simp add: notify_result_def notifier_works_def)

lemma agree_notifier_works:
  assumes "\<And>n u. swallowed (notify_send w n u)"
  shows "agree w (notifier_works w)"
  unfolding agree_def
  by (simp add: notify_result_notifier_works swallowed_notify_result [OF assms])
    (simp add: notifier_works_def)

text \<open>
  C8 (amended). For every title, body and urgency, the notification operation makes one
  call of the delivery tool, bounded by a timeout of 5 seconds. When the tool runs,
  whatever its exit status, when it is absent and when the call runs out of time, the
  operation returns normally. In a world where every notification call ends in one of
  these ways, the run returns the same value and performs the same effects as if every
  notification were delivered.
\<close>

theorem notification_failures_swallowed:
  "(\<exists>r. enviar_notificacao w n u None s = (r, s\<lparr>trace := trace s @ [NotifySend u n 5]\<rparr>)
        \<and> (swallowed (notify_send w n u) \<longrightarrow> r = Inr ()))
   \<and> ((\<forall>n u. swallowed (notify_send w n u)) \<longrightarrow>
        fst (executar w cfg dry_run None initial)
          = fst (executar (notifier_works w) cfg dry_run None initial)
        \<and> trace (snd (executar w cfg dry_run None initial))
          = trace (snd (executar (notifier_works w) cfg dry_run None initial)))"
proof (intro conjI impI)
  show "\<exists>r. enviar_notificacao w n u None s = (r, s\<lparr>trace := trace s @ [NotifySend u n 5]\<rparr>)
        \<and> (swallowed (notify_send w n u) \<longrightarrow> r = Inr ())"
    by (simp add: enviar_notificacao_None swallowed_notify_result)
next
  assume a: "\<forall>n u. swallowed (notify_send w n u)"
  then have ag: "agree w (notifier_works w)" by (simp add: agree_notifier_works)
  have "sim (\<lambda>e. True) (rotacionar_backups w cfg dry_run)
          (rotacionar_backups (notifier_works w) cfg dry_run)"
    by (rule sim_rotacionar_backups) (simp_all add: notifier_works_def)
  from simD [OF sim_executar [OF ag this] same_initial]
  show "fst (executar w cfg dry_run None initial)
          = fst (executar (notifier_works w) cfg dry_run None initial)"
    and "trace (snd (executar w cfg dry_run None initial))
          = trace (snd (executar (notifier_works w) cfg dry_run None initial))"
    by (simp_all add: same_def)
qed

theorem notification_failures_swallowed_witness:
  "swallowed (notify_send (world_ex\<lparr>notify_send := no_desktop\<rparr>) BackupConcluido Low)
   \<and> enviar_notificacao (world_ex\<lparr>notify_send := no_desktop\<rparr>) BackupConcluido Low None initial
       = (Inr (), initial\<lparr>trace := trace initial @ [NotifySend Low BackupConcluido 5]\<rparr>)
   \<and> fst (executar (world_ex\<lparr>notify_send := no_desktop\<rparr>) cfg_ex False None initial) = Inr True
   \<and> trace (snd (executar (world_ex\<lparr>notify_send := no_desktop\<rparr>) cfg_ex False None initial))
       = trace (snd (executar world_ex cfg_ex False None initial))"
proof -
  let ?w = "world_ex\<lparr>notify_send := no_desktop\<rparr>"
  have sw: "swallowed (notify_send ?w n u)" for n u
    by (simp add: swallowed_def no_desktop_def)
  have nw: "notifier_works ?w = world_ex"
    by (simp add: notifier_works_def world_ex_def)
  have ok: "fst (executar world_ex cfg_ex False None initial) = Inr True"
    by (simp add: run_simps example_simps date_simps parse_simps)
  from notification_failures_swallowed [of ?w BackupConcluido Low initial cfg_ex False] sw
  have "enviar_notificacao ?w BackupConcluido Low None initial
       = (Inr (), initial\<lparr>trace := trace initial @ [NotifySend Low BackupConcluido 5]\<rparr>)"
    and "fst (executar ?w cfg_ex False None initial)
          = fst (executar (notifier_works ?w) cfg_ex False None initial)"
    and "trace (snd (executar ?w cfg_ex False None initial))
          = trace (snd (executar (notifier_works ?w) cfg_ex False None initial))"
    by auto
  with sw [of BackupConcluido Low] ok show ?thesis unfolding nw by simp
qed

text \<open>
  A \<open>notify-send\<close> that is installed but may not be executed: \<open>subprocess.run\<close> raises
  \<open>PermissionError\<close>, neither \<open>except\<close> clause of \<open>enviar_notificacao\<close> matches it, and the
  run that would have exited with status 0 exits with status 1.
\<close>

theorem notification_failure_can_abort:
  "fst (enviar_notificacao (world_ex\<lparr>notify_send := no_permission\<rparr>) BackupConcluido Low None
          initial)
     = Inl (OSError PermissionDenied)
   \<and> fst (main world_ex cfg_ex False None) = 0
   \<and> fst (main (world_ex\<lparr>notify_send := no_permission\<rparr>) cfg_ex False None) = 1"
proof -
  have "fst (executar (world_ex\<lparr>notify_send := no_permission\<rparr>) cfg_ex False None initial)
       = Inl (OSError PermissionDenied)"
    by (simp add: run_simps example_simps date_simps parse_simps)
  moreover have "fst (executar world_ex cfg_ex False None initial) = Inr True"
    by (simp add: run_simps example_simps date_simps parse_simps)
  moreover have "fst (enviar_notificacao (world_ex\<lparr>notify_send := no_permission\<rparr>)
      BackupConcluido Low None initial) = Inl (OSError PermissionDenied)"
    by (simp add: enviar_notificacao_None notify_result_def no_permission_def exn_of_def)
  ultimately show ?thesis
    by (simp add: fst_main exit_status_def) (simp add: cfg_ex_def)
qed


end
